theory Spec2Isabelle
  imports Main "HOL-Library.Finite_Map" "HOL-Library.Char_ord" "HOL-Library.List_Lexorder"
begin

section \<open>runproc: a minimal OCI runtime, embedded in HOL\<close>

text \<open>
  The Go sources modelled here are the packages \<^verbatim>\<open>state\<close> (the State Store),
  \<^verbatim>\<open>oci\<close> (the Spec Loader) and \<^verbatim>\<open>main\<close> (the commands and the command line).
  \<^item> A Go \<^verbatim>\<open>string\<close> is a byte sequence and is a \<^typ>\<open>string\<close> here; a Go \<^verbatim>\<open>int\<close> is
    an \<^typ>\<open>int\<close>, with the 64-bit range written out where it matters
    (\<^verbatim>\<open>strconv.Atoi\<close>, the JSON decoder, the signal that the kernel is handed); a slice
    is a list; a \<^verbatim>\<open>map[string]string\<close> is a finite map or nil, since \<^verbatim>\<open>cmdInit\<close> tests
    a map against nil.
  \<^item> An \<^verbatim>\<open>error\<close> is a value of a datatype and \<^verbatim>\<open>nil\<close> is \<^term>\<open>None\<close>.
  \<^item> The file system is explicit state. A JSON document is the sequence of values
    that the decoder of \<^verbatim>\<open>encoding/json\<close> reads from its text: an object is the list of
    its members in order, a string is its bytes after the replacement of invalid UTF-8,
    and a timestamp is the instant that its RFC 3339 text carries.
  \<^item> What the operating system answers to a system call (the pid of a child, the
    result of \<^verbatim>\<open>kill\<close>, \<^verbatim>\<open>wait4\<close>, \<^verbatim>\<open>chroot\<close>) and the reading of the clock are
    arguments of the function that makes the call.
  \<^item> A loop that waits for another process takes the answers it will get as a list
    and has not returned, \<^term>\<open>None\<close>, when the list runs out before the loop ends.
\<close>

subsection \<open>Library functions of package strings and strconv\<close>

definition HasPrefix :: "string \<Rightarrow> string \<Rightarrow> bool" where
  "HasPrefix s p = (take (length p) s = p)"

definition TrimPrefix :: "string \<Rightarrow> string \<Rightarrow> string" where
  "TrimPrefix s p = (if HasPrefix s p then drop (length p) s else s)"

text \<open>\<^verbatim>\<open>strings.SplitN(e, "=", 2)\<close>: at most two pieces, cut at the first separator.\<close>

definition SplitN2 :: "string \<Rightarrow> string list" where
  "SplitN2 e =
     (if CHR ''='' \<in> set e
      then [takeWhile (\<lambda>c. c \<noteq> CHR ''='') e, tl (dropWhile (\<lambda>c. c \<noteq> CHR ''='') e)]
      else [e])"

definition isDigit :: "char \<Rightarrow> bool" where
  "isDigit c = (48 \<le> (of_char c :: nat) \<and> (of_char c :: nat) \<le> 57)"

text \<open>\<^verbatim>\<open>isAllDigits\<close> of cli.go: non-empty and ASCII digits only.\<close>

definition isAllDigits :: "string \<Rightarrow> bool" where
  "isAllDigits s = (if s = [] then False else list_all isDigit s)"

definition digitVal :: "char \<Rightarrow> int" where
  "digitVal c = int (of_char c) - 48"

definition digitsVal :: "string \<Rightarrow> int" where
  "digitsVal s = foldl (\<lambda>acc c. acc * 10 + digitVal c) 0 s"

definition maxInt :: int where
  "maxInt = 9223372036854775807"

definition minInt :: int where
  "minInt = - 9223372036854775808"

text \<open>
  \<^verbatim>\<open>strconv.Atoi\<close>: an optional sign, then one or more decimal digits; a value outside
  the range of \<^verbatim>\<open>int\<close> is an error (\<^term>\<open>None\<close>), as is any other text.
\<close>

definition Atoi :: "string \<Rightarrow> int option" where
  "Atoi s =
     (let neg = HasPrefix s ''-'';
          ds = (if HasPrefix s ''-'' \<or> HasPrefix s ''+'' then tl s else s)
      in if \<not> isAllDigits ds then None
         else let v = (if neg then - digitsVal ds else digitsVal ds)
              in if v < minInt \<or> maxInt < v then None else Some v)"

definition lowerASCII :: "char \<Rightarrow> char" where
  "lowerASCII c =
     (if 65 \<le> (of_char c :: nat) \<and> (of_char c :: nat) \<le> 90
      then char_of ((of_char c :: nat) + 32) else c)"

text \<open>
  \<^verbatim>\<open>strings.EqualFold(s, t)\<close> for an ASCII \<open>t\<close>: equality of the UTF-8 texts under
  simple Unicode case folding. An ASCII byte of \<open>s\<close> matches the byte of \<open>t\<close> with the
  same lower-case form. Two code points outside ASCII fold to an ASCII letter: U+017F
  (bytes C5 BF) to \<open>s\<close> and U+212A (bytes E2 84 AA) to \<open>k\<close>; no other rune, and no
  invalid byte, matches an ASCII letter.
\<close>

definition matchRune :: "string \<Rightarrow> char \<Rightarrow> string option" where
  "matchRune s c =
     (case s of
        [] \<Rightarrow> None
      | a # r \<Rightarrow>
          if (of_char a :: nat) < 128 then
            (if lowerASCII a = lowerASCII c then Some r else None)
          else if lowerASCII c = CHR ''s'' \<and> take 2 s = [CHR 0xC5, CHR 0xBF]
            then Some (drop 2 s)
          else if lowerASCII c = CHR ''k'' \<and>
                  take 3 s = [CHR 0xE2, CHR 0x84, CHR 0xAA]
            then Some (drop 3 s)
          else None)"

fun EqualFold :: "string \<Rightarrow> string \<Rightarrow> bool" where
  "EqualFold s [] = (s = [])"
| "EqualFold s (c # t) =
     (case matchRune s c of None \<Rightarrow> False | Some r \<Rightarrow> EqualFold r t)"

text \<open>
  \<^verbatim>\<open>encoding/json\<close> writes a string rune by rune: a byte that does not start a valid
  UTF-8 encoding (\<^verbatim>\<open>utf8.DecodeRuneInString\<close> gives \<^verbatim>\<open>RuneError\<close> of width 1) is written
  as U+FFFD, bytes EF BF BD. \<^term>\<open>runeLen\<close> is the width of the valid encoding at the
  head of a string, 0 when there is none.
\<close>

definition contByte :: "char \<Rightarrow> bool" where
  "contByte c = (128 \<le> (of_char c :: nat) \<and> (of_char c :: nat) \<le> 191)"

definition byteIn :: "nat \<Rightarrow> nat \<Rightarrow> char \<Rightarrow> bool" where
  "byteIn lo hi c = (lo \<le> (of_char c :: nat) \<and> (of_char c :: nat) \<le> hi)"

definition runeLen :: "string \<Rightarrow> nat" where
  "runeLen s =
     (case s of
        [] \<Rightarrow> 0
      | a # r \<Rightarrow>
         (let b = (of_char a :: nat) in
          if b < 128 then 1
          else if 194 \<le> b \<and> b \<le> 223 then
            (if 1 \<le> length r \<and> contByte (r ! 0) then 2 else 0)
          else if 224 \<le> b \<and> b \<le> 239 then
            (if 2 \<le> length r
                \<and> byteIn (if b = 224 then 160 else 128) (if b = 237 then 159 else 191) (r ! 0)
                \<and> contByte (r ! 1) then 3 else 0)
          else if 240 \<le> b \<and> b \<le> 244 then
            (if 3 \<le> length r
                \<and> byteIn (if b = 240 then 144 else 128) (if b = 244 then 143 else 191) (r ! 0)
                \<and> contByte (r ! 1) \<and> contByte (r ! 2) then 4 else 0)
          else 0))"

text \<open>\<open>k\<close> counts the bytes still to copy of the rune that is being copied.\<close>

fun coerceFrom :: "nat \<Rightarrow> string \<Rightarrow> string" where
  "coerceFrom k [] = []"
| "coerceFrom k (a # r) =
     (if 0 < k then a # coerceFrom (k - 1) r
      else (let n = runeLen (a # r)
            in if n = 0 then [CHR 0xEF, CHR 0xBF, CHR 0xBD] @ coerceFrom 0 r
               else a # coerceFrom (n - 1) r))"

definition toValidUTF8 :: "string \<Rightarrow> string" where
  "toValidUTF8 s = coerceFrom 0 s"


subsection \<open>Errors\<close>

datatype errno = EPERM | ENOENT | ESRCH | EINTR | ECHILD | EINVAL | ENOTDIR | EISDIR | EIO

datatype error =
    Errno errno
  | AlreadyExists string
  | NoPid
  | JSONError
  | Msg string
  | Wrapped string error

text \<open>\<^verbatim>\<open>os.IsNotExist\<close> looks at the error itself, not through \<^verbatim>\<open>%w\<close> wrapping.\<close>

fun IsNotExist :: "error \<Rightarrow> bool" where
  "IsNotExist (Errno ENOENT) = True"
| "IsNotExist _ = False"

subsection \<open>Signals and the liveness probe\<close>

type_synonym Signal = int

definition SIGHUP :: Signal where "SIGHUP = 1"
definition SIGINT :: Signal where "SIGINT = 2"
definition SIGKILL :: Signal where "SIGKILL = 9"
definition SIGTERM :: Signal where "SIGTERM = 15"

text \<open>
  \<^verbatim>\<open>syscall.Kill\<close> as the kernel answers it, for the pid that the program passes and the
  signal that the kernel is handed: \<^term>\<open>None\<close> is success.
\<close>

type_synonym sys_kill = "int \<Rightarrow> Signal \<Rightarrow> errno option"

text \<open>\<^verbatim>\<open>pidAlive\<close>: EPERM means alive; ESRCH means not alive.\<close>

definition pidAlive :: "sys_kill \<Rightarrow> int \<Rightarrow> bool" where
  "pidAlive kill pid =
     (if pid \<le> 0 then False
      else case kill pid 0 of
             None \<Rightarrow> True
           | Some err \<Rightarrow> if err = EPERM then True else False)"

text \<open>The signal table of \<^verbatim>\<open>cmdKill\<close>.\<close>

definition sigTable :: "string \<Rightarrow> Signal option" where
  "sigTable name =
     (if name = ''SIGTERM'' then Some SIGTERM
      else if name = ''SIGKILL'' then Some SIGKILL
      else if name = ''SIGINT'' then Some SIGINT
      else if name = ''SIGHUP'' then Some SIGHUP
      else None)"

text \<open>
  The signal \<^verbatim>\<open>cmdKill\<close> sends for its \<^verbatim>\<open>signal\<close> argument: \<^verbatim>\<open>sig\<close> starts as SIGTERM
  and is replaced when the name is in the table, or when the text is a number.
\<close>

definition resolveSignal :: "string \<Rightarrow> Signal" where
  "resolveSignal signal =
     (if signal \<noteq> [] then
        (if HasPrefix signal ''SIG'' then
           (case sigTable signal of Some s \<Rightarrow> s | None \<Rightarrow> SIGTERM)
         else (case Atoi signal of Some n \<Rightarrow> n | None \<Rightarrow> SIGTERM))
      else SIGTERM)"

text \<open>
  The \<^verbatim>\<open>kill\<close> case of \<^verbatim>\<open>run\<close> in cli.go: \<^verbatim>\<open>--all\<close> and \<^verbatim>\<open>-a\<close> are dropped, then one
  or two arguments give the id and the signal text, from which one leading dash is
  trimmed. \<^term>\<open>None\<close> is the usage error (exit code 1).
\<close>

definition looksLikeSignal :: "string \<Rightarrow> bool" where
  "looksLikeSignal a =
     (HasPrefix a ''SIG'' \<or> (HasPrefix a ''-'' \<and> isAllDigits (TrimPrefix a ''-'')) \<or> isAllDigits a)"

definition killArgs :: "string list \<Rightarrow> (string \<times> string) option" where
  "killArgs updatedArgs =
     (let args2 = filter (\<lambda>a. \<not> (a = ''--all'' \<or> a = ''-a'')) updatedArgs
      in case args2 of
           [] \<Rightarrow> None
         | [a] \<Rightarrow> Some (a, [])
         | [a, b] \<Rightarrow>
             if looksLikeSignal a then Some (b, TrimPrefix a ''-'')
             else Some (a, TrimPrefix b ''-'')
         | _ \<Rightarrow> None)"

text \<open>
  \<^verbatim>\<open>preprocessRuncCompat\<close> of cli.go, its loop with the variables \<^verbatim>\<open>skipNext\<close>, \<^verbatim>\<open>out\<close>
  and \<^verbatim>\<open>ov\<close>. An argument without a leading dash, and a dash followed by digits only,
  is kept. A flag is cut at its first \<open>=\<close>; the flags with a value take the next argument
  when they have none; every other flag, known or not, is dropped, and with it the
  next argument when that has no leading dash.
\<close>

record compatOverrides =
  ov_root :: string
  ov_logPath :: string
  ov_logFormat :: string

definition flagName :: "string \<Rightarrow> string" where
  "flagName a = takeWhile (\<lambda>c. c \<noteq> CHR ''='') a"

definition flagValue :: "string \<Rightarrow> string" where
  "flagValue a = (if CHR ''='' \<in> set a then tl (dropWhile (\<lambda>c. c \<noteq> CHR ''='') a) else [])"

definition ignoredFlags :: "string list" where
  "ignoredFlags =
     [''--systemd-cgroup'', ''--no-pivot'', ''--detach'', ''--console-socket'',
      ''--no-new-keyring'', ''--rootless'', ''--no-subreaper'']"

fun preLoop :: "string list \<Rightarrow> bool \<Rightarrow> string list \<Rightarrow> compatOverrides
    \<Rightarrow> string list \<times> compatOverrides" where
  "preLoop [] skipNext out ov = (out, ov)"
| "preLoop (a # rest) skipNext out ov =
     (if skipNext then preLoop rest False out ov
      else if \<not> HasPrefix a ''-'' then preLoop rest False (out @ [a]) ov
      else if length a > 1 \<and> isAllDigits (TrimPrefix a ''-'') then preLoop rest False (out @ [a]) ov
      else
       (let name = flagName a;
            value = flagValue a;
            takes = (value = [] \<and> rest \<noteq> []);
            value1 = (if takes then hd rest else value);
            swallows = (value = [] \<and> rest \<noteq> [] \<and> \<not> HasPrefix (hd rest) ''-'')
        in if name = ''--bundle'' \<or> name = ''-b'' then
             preLoop rest takes (out @ [''--bundle'', value1]) ov
           else if name = ''--pid-file'' then
             preLoop rest takes (out @ [''--pid-file'', value1]) ov
           else if name = ''--root'' then preLoop rest takes out (ov\<lparr>ov_root := value1\<rparr>)
           else if name = ''--log'' then preLoop rest takes out (ov\<lparr>ov_logPath := value1\<rparr>)
           else if name = ''--log-format'' then preLoop rest takes out (ov\<lparr>ov_logFormat := value1\<rparr>)
           else if name \<in> set ignoredFlags then preLoop rest swallows out ov
           else preLoop rest swallows out ov))"

definition preprocessRuncCompat :: "string \<Rightarrow> string list \<Rightarrow> string list \<times> compatOverrides" where
  "preprocessRuncCompat cmd args =
     preLoop args False [] \<lparr>ov_root = [], ov_logPath = [], ov_logFormat = []\<rparr>"

text \<open>
  \<^verbatim>\<open>run()\<close> on a command line \<open>argv\<close> (\<^verbatim>\<open>os.Args[1:]\<close>) whose command is \<^verbatim>\<open>kill\<close>: the whole
  line is preprocessed, its first word is the command, the rest is preprocessed again,
  and the \<^verbatim>\<open>kill\<close> case reads the id and the signal text that \<^verbatim>\<open>cmdKill\<close> gets.
  \<^term>\<open>None\<close> is a usage error, or a line with another command.
\<close>

definition runKill :: "string list \<Rightarrow> (string \<times> string) option" where
  "runKill argv =
     (case fst (preprocessRuncCompat [] argv) of
        [] \<Rightarrow> None
      | cmd # args \<Rightarrow>
          if cmd = ''kill'' then killArgs (fst (preprocessRuncCompat cmd args)) else None)"

text \<open>
  \<^verbatim>\<open>syscall.Kill\<close> hands the signal to the kernel as a C \<^verbatim>\<open>int\<close>: the low 32 bits of
  the Go value, signed.
\<close>

definition cint :: "int \<Rightarrow> int" where
  "cint n = (n + 2147483648) mod 4294967296 - 2147483648"

subsection \<open>Paths and the file system\<close>

text \<open>
  An absolute, clean path is the list of its components; the root directory is \<open>[]\<close>.
  \<^verbatim>\<open>filepath.Join\<close> of such a path with a string splits the string at the separators
  and cleans the result lexically: empty components and \<open>.\<close> are dropped, \<open>..\<close> removes
  the component before it (and nothing at the root). A relative path is resolved from
  the working directory of the process.
\<close>

type_synonym path = "string list"

fun splitPath :: "string \<Rightarrow> string list" where
  "splitPath [] = [[]]"
| "splitPath (c # s) =
     (if c = CHR ''/'' then [] # splitPath s
      else (case splitPath s of [] \<Rightarrow> [[c]] | h # t \<Rightarrow> (c # h) # t))"

definition cleanStep :: "path \<Rightarrow> string \<Rightarrow> path" where
  "cleanStep p c =
     (if c = [] \<or> c = ''.'' then p
      else if c = ''..'' then butlast p
      else p @ [c])"

definition Join :: "path \<Rightarrow> string \<Rightarrow> path" where
  "Join p s = foldl cleanStep p (splitPath s)"

definition IsAbs :: "string \<Rightarrow> bool" where
  "IsAbs s = HasPrefix s ''/''"

definition absPath :: "path \<Rightarrow> string \<Rightarrow> path" where
  "absPath cwd s = (if IsAbs s then Join [] s else Join cwd s)"

text \<open>\<^verbatim>\<open>p + ".tmp"\<close> on the text of a path: the suffix lands on the last component.\<close>

definition withSuffix :: "path \<Rightarrow> string \<Rightarrow> path" where
  "withSuffix p s = (if p = [] then [s] else butlast p @ [last p @ s])"

text \<open>
  A JSON document as the decoder of \<^verbatim>\<open>encoding/json\<close> reads it: \<^verbatim>\<open>JStr s\<close> is a
  string read as the bytes \<open>s\<close>, \<^verbatim>\<open>JTime t\<close> is the string with the RFC 3339 text of the
  time \<open>t\<close>, and an object is the list of its members in the order of the document.
  A \<^verbatim>\<open>time.Time\<close> is the instant it names, in nanoseconds from the Unix epoch and read in
  UTC; its location and its monotonic clock reading, which a document does not keep, are
  not part of it.
\<close>

type_synonym time = int

datatype json =
    JNull
  | JBool bool
  | JNum int
  | JStr string
  | JTime time
  | JArr "json list"
  | JObj "(string \<times> json) list"

text \<open>
  A file holds a JSON document, or text that is none (the empty file that
  \<^verbatim>\<open>O_TRUNC\<close> leaves, the start marker).
\<close>

datatype content = Text string | Doc json

record fs =
  files :: "path \<rightharpoonup> content"
  dirs :: "path set"

definition isDir :: "fs \<Rightarrow> path \<Rightarrow> bool" where
  "isDir f p = (p = [] \<or> p \<in> dirs f)"

text \<open>A name with a NUL byte is refused (EINVAL) before the kernel is asked.\<close>

definition nulPath :: "path \<Rightarrow> bool" where
  "nulPath p = list_ex (\<lambda>c. CHR 0x00 \<in> set c) p"

text \<open>
  A regular file stands where the path needs a directory: the kernel then answers
  ENOTDIR, whatever the rest of the path.
\<close>

definition underFile :: "fs \<Rightarrow> path \<Rightarrow> bool" where
  "underFile f p = list_ex (\<lambda>n. files f (take n p) \<noteq> None) [0 ..< length p]"

text \<open>\<^verbatim>\<open>os.Stat(p)\<close> succeeds.\<close>

definition Stat :: "fs \<Rightarrow> path \<Rightarrow> bool" where
  "Stat f p = (\<not> nulPath p \<and> \<not> underFile f p \<and> (files f p \<noteq> None \<or> isDir f p))"

definition ancestors :: "path \<Rightarrow> path list" where
  "ancestors p = map (\<lambda>n. take n p) [0 ..< Suc (length p)]"

text \<open>\<^verbatim>\<open>os.MkdirAll\<close>: the directory and its missing parents; a file in the way is an error.\<close>

definition MkdirAll :: "fs \<Rightarrow> path \<Rightarrow> errno + fs" where
  "MkdirAll f p =
     (if nulPath p then Inl EINVAL
      else if list_ex (\<lambda>q. files f q \<noteq> None) (ancestors p) then Inl ENOTDIR
      else Inr (f\<lparr>dirs := dirs f \<union> set (ancestors p)\<rparr>))"

text \<open>
  \<^verbatim>\<open>os.OpenFile(p, O_CREATE|O_WRONLY|O_TRUNC, mode)\<close>: the file exists and is empty
  afterwards; the directory it stands in must exist.
\<close>

definition OpenFile :: "fs \<Rightarrow> path \<Rightarrow> errno + fs" where
  "OpenFile f p =
     (if nulPath p then Inl EINVAL
      else if underFile f p then Inl ENOTDIR
      else if isDir f p then Inl EISDIR
      else if \<not> isDir f (butlast p) then Inl ENOENT
      else Inr (f\<lparr>files := (files f)(p \<mapsto> Text [])\<rparr>))"

text \<open>One write of the whole content to the open file.\<close>

definition writeTo :: "fs \<Rightarrow> path \<Rightarrow> content \<Rightarrow> fs" where
  "writeTo f p c = f\<lparr>files := (files f)(p \<mapsto> c)\<rparr>"

definition Rename :: "fs \<Rightarrow> path \<Rightarrow> path \<Rightarrow> errno + fs" where
  "Rename f a b =
     (if nulPath a \<or> nulPath b then Inl EINVAL
      else if underFile f a \<or> underFile f b then Inl ENOTDIR
      else case files f a of
        None \<Rightarrow> Inl ENOENT
      | Some c \<Rightarrow>
          if isDir f b then Inl EISDIR
          else if \<not> isDir f (butlast b) then Inl ENOENT
          else Inr (f\<lparr>files := ((files f)(a := None))(b \<mapsto> c)\<rparr>))"

definition ReadFile :: "fs \<Rightarrow> path \<Rightarrow> errno + content" where
  "ReadFile f p =
     (if nulPath p then Inl EINVAL
      else if underFile f p then Inl ENOTDIR
      else case files f p of
        Some c \<Rightarrow> Inr c
      | None \<Rightarrow> if isDir f p then Inl EISDIR else Inl ENOENT)"

definition WriteFile :: "fs \<Rightarrow> path \<Rightarrow> content \<Rightarrow> errno + fs" where
  "WriteFile f p c =
     (case OpenFile f p of Inl e \<Rightarrow> Inl e | Inr f1 \<Rightarrow> Inr (writeTo f1 p c))"

definition under :: "path \<Rightarrow> path \<Rightarrow> bool" where
  "under d p = (take (length d) p = d)"

text \<open>
  \<^verbatim>\<open>os.RemoveAll(d)\<close> for a path that the kernel resolves: the tree at \<open>d\<close> is gone; a path
  that does not exist is no error.
\<close>

definition RemoveAll :: "fs \<Rightarrow> path \<Rightarrow> fs" where
  "RemoveAll f d =
     f\<lparr>files := (\<lambda>p. if under d p then None else files f p),
       dirs := {p. p \<in> dirs f \<and> \<not> under d p}\<rparr>"

subsection \<open>Reading JSON into Go values\<close>

text \<open>
  \<^verbatim>\<open>encoding/json\<close> reads a value into a Go variable that already holds one: \<^verbatim>\<open>null\<close>
  leaves a string, a number, a boolean or a time as it is and sets a pointer, a slice
  or a map to nil; a value of another kind is an error (\<^term>\<open>None\<close> here); a number must
  fit the Go \<^verbatim>\<open>int\<close>.
\<close>

definition goInt :: "int \<Rightarrow> bool" where
  "goInt n = (minInt \<le> n \<and> n \<le> maxInt)"

text \<open>The zero \<^verbatim>\<open>time.Time\<close>: January 1 of year 1, in nanoseconds from the Unix epoch.\<close>

definition zeroTime :: time where
  "zeroTime = - 62135596800000000000"

text \<open>\<^verbatim>\<open>Time.MarshalJSON\<close> fails for a year outside 0 to 9999.\<close>

definition marshalable :: "time \<Rightarrow> bool" where
  "marshalable t = (- 62167219200000000000 \<le> t \<and> t < 253402300800000000000)"

fun intoString :: "string \<Rightarrow> json \<Rightarrow> string option" where
  "intoString cur JNull = Some cur"
| "intoString cur (JStr s) = Some s"
| "intoString cur _ = None"

fun intoInt :: "int \<Rightarrow> json \<Rightarrow> int option" where
  "intoInt cur JNull = Some cur"
| "intoInt cur (JNum n) = (if goInt n then Some n else None)"
| "intoInt cur _ = None"

fun intoBool :: "bool \<Rightarrow> json \<Rightarrow> bool option" where
  "intoBool cur JNull = Some cur"
| "intoBool cur (JBool b) = Some b"
| "intoBool cur _ = None"

fun intoTime :: "time \<Rightarrow> json \<Rightarrow> time option" where
  "intoTime cur JNull = Some cur"
| "intoTime cur (JTime t) = Some t"
| "intoTime cur _ = None"

fun intoTimePtr :: "time option \<Rightarrow> json \<Rightarrow> time option option" where
  "intoTimePtr cur JNull = Some None"
| "intoTimePtr cur (JTime t) = Some (Some t)"
| "intoTimePtr cur _ = None"

fun intoIntPtr :: "int option \<Rightarrow> json \<Rightarrow> int option option" where
  "intoIntPtr cur JNull = Some None"
| "intoIntPtr cur (JNum n) = (if goInt n then Some (Some n) else None)"
| "intoIntPtr cur _ = None"

text \<open>A slice of strings is replaced by the elements of the array.\<close>

fun intoStrings :: "string list \<Rightarrow> json \<Rightarrow> string list option" where
  "intoStrings cur JNull = Some []"
| "intoStrings cur (JArr xs) =
     (if list_all (\<lambda>v. intoString [] v \<noteq> None) xs
      then Some (map (\<lambda>v. the (intoString [] v)) xs) else None)"
| "intoStrings cur _ = None"

text \<open>
  A Go \<^verbatim>\<open>map[string]string\<close>: \<^term>\<open>None\<close> is the nil map. The members of an object are
  stored into the map one by one, a later member over an earlier one with its key.
\<close>

type_synonym gomap = "(string, string) fmap option"

definition putMember :: "(string, string) fmap option \<Rightarrow> string \<times> json
    \<Rightarrow> (string, string) fmap option" where
  "putMember acc kv =
     (case acc of
        None \<Rightarrow> None
      | Some m \<Rightarrow>
          (case intoString [] (snd kv) of
             None \<Rightarrow> None
           | Some v \<Rightarrow> Some (fmupd (fst kv) v m)))"

fun intoStringMap :: "gomap \<Rightarrow> json \<Rightarrow> gomap option" where
  "intoStringMap cur JNull = Some None"
| "intoStringMap cur (JObj ms) =
     map_option Some (foldl putMember (Some (case cur of None \<Rightarrow> fmempty | Some m \<Rightarrow> m)) ms)"
| "intoStringMap cur _ = None"

text \<open>
  The field of a struct that a key of the object names: the field with exactly that
  name, or else the first field whose name equals the key under case folding. A key
  that names no field is skipped.
\<close>

definition matchField :: "string list \<Rightarrow> string \<Rightarrow> string option" where
  "matchField names key =
     (if key \<in> set names then Some key else find (\<lambda>n. EqualFold key n) names)"

text \<open>
  The members of an object are read into the struct in the order of the document; an
  error in one member is the error of the whole.
\<close>

definition decodeMembers :: "('a \<Rightarrow> string \<times> json \<Rightarrow> 'a option) \<Rightarrow> 'a \<Rightarrow> (string \<times> json) list
    \<Rightarrow> 'a option" where
  "decodeMembers setField z ms =
     foldl (\<lambda>acc kv. case acc of None \<Rightarrow> None | Some a \<Rightarrow> setField a kv) (Some z) ms"

subsection \<open>Package oci: the Spec and its loader\<close>

record Process =
  Terminal :: bool
  Args :: "string list"
  Env :: "string list"
  Cwd :: string

record Root =
  Path :: string
  Readonly :: bool

record Spec =
  OCIVersion :: string
  Process :: "Process option"
  Root :: "Root option"
  SpecAnnotations :: gomap

definition zeroProcess :: Process where
  "zeroProcess = \<lparr>Terminal = False, Args = [], Env = [], Cwd = []\<rparr>"

definition zeroRoot :: Root where
  "zeroRoot = \<lparr>Path = [], Readonly = False\<rparr>"

definition zeroSpec :: Spec where
  "zeroSpec = \<lparr>OCIVersion = [], Process = None, Root = None, SpecAnnotations = None\<rparr>"

definition setProcessField :: "Process \<Rightarrow> string \<times> json \<Rightarrow> Process option" where
  "setProcessField p kv =
     (case matchField [''terminal'', ''args'', ''env'', ''cwd''] (fst kv) of
        None \<Rightarrow> Some p
      | Some n \<Rightarrow>
          if n = ''terminal'' then map_option (\<lambda>x. p\<lparr>Terminal := x\<rparr>) (intoBool (Terminal p) (snd kv))
          else if n = ''args'' then map_option (\<lambda>x. p\<lparr>Args := x\<rparr>) (intoStrings (Args p) (snd kv))
          else if n = ''env'' then map_option (\<lambda>x. p\<lparr>Env := x\<rparr>) (intoStrings (Env p) (snd kv))
          else map_option (\<lambda>x. p\<lparr>Cwd := x\<rparr>) (intoString (Cwd p) (snd kv)))"

text \<open>
  A value read into a \<^verbatim>\<open>Process\<close> variable, and into the pointer field of the Spec: the
  pointer is allocated when it is nil, and an object is read into what it points to.
\<close>

fun intoProcess :: "Process \<Rightarrow> json \<Rightarrow> Process option" where
  "intoProcess cur JNull = Some cur"
| "intoProcess cur (JObj ms) = decodeMembers setProcessField cur ms"
| "intoProcess cur _ = None"

fun intoProcessPtr :: "Process option \<Rightarrow> json \<Rightarrow> Process option option" where
  "intoProcessPtr cur JNull = Some None"
| "intoProcessPtr cur (JObj ms) =
     map_option Some
       (decodeMembers setProcessField (case cur of None \<Rightarrow> zeroProcess | Some p \<Rightarrow> p) ms)"
| "intoProcessPtr cur _ = None"

definition setRootField :: "Root \<Rightarrow> string \<times> json \<Rightarrow> Root option" where
  "setRootField r kv =
     (case matchField [''path'', ''readonly''] (fst kv) of
        None \<Rightarrow> Some r
      | Some n \<Rightarrow>
          if n = ''path'' then map_option (\<lambda>x. r\<lparr>Path := x\<rparr>) (intoString (Path r) (snd kv))
          else map_option (\<lambda>x. r\<lparr>Readonly := x\<rparr>) (intoBool (Readonly r) (snd kv)))"

fun intoRootPtr :: "Root option \<Rightarrow> json \<Rightarrow> Root option option" where
  "intoRootPtr cur JNull = Some None"
| "intoRootPtr cur (JObj ms) =
     map_option Some (decodeMembers setRootField (case cur of None \<Rightarrow> zeroRoot | Some r \<Rightarrow> r) ms)"
| "intoRootPtr cur _ = None"

definition setSpecField :: "Spec \<Rightarrow> string \<times> json \<Rightarrow> Spec option" where
  "setSpecField s kv =
     (case matchField [''ociVersion'', ''process'', ''root'', ''annotations''] (fst kv) of
        None \<Rightarrow> Some s
      | Some n \<Rightarrow>
          if n = ''ociVersion'' then
            map_option (\<lambda>x. s\<lparr>OCIVersion := x\<rparr>) (intoString (OCIVersion s) (snd kv))
          else if n = ''process'' then
            map_option (\<lambda>x. s\<lparr>Process := x\<rparr>) (intoProcessPtr (Process s) (snd kv))
          else if n = ''root'' then
            map_option (\<lambda>x. s\<lparr>Root := x\<rparr>) (intoRootPtr (Root s) (snd kv))
          else
            map_option (\<lambda>x. s\<lparr>SpecAnnotations := x\<rparr>) (intoStringMap (SpecAnnotations s) (snd kv)))"

text \<open>\<^verbatim>\<open>Decode(&s)\<close> into the zero Spec.\<close>

fun decodeSpec :: "json \<Rightarrow> Spec option" where
  "decodeSpec JNull = Some zeroSpec"
| "decodeSpec (JObj ms) = decodeMembers setSpecField zeroSpec ms"
| "decodeSpec _ = None"

text \<open>\<^verbatim>\<open>LoadSpec\<close>: open \<^verbatim>\<open>config.json\<close> of the bundle and decode it; nothing else.\<close>

definition LoadSpec :: "fs \<Rightarrow> path \<Rightarrow> string \<Rightarrow> error + Spec" where
  "LoadSpec f cwd bundle =
     (let p = Join (absPath cwd bundle) ''config.json''
      in case ReadFile f p of
           Inl e \<Rightarrow> Inl (Wrapped ''open spec'' (Errno e))
         | Inr (Text t) \<Rightarrow> Inl (Wrapped ''decode spec'' JSONError)
         | Inr (Doc j) \<Rightarrow>
             (case decodeSpec j of
                None \<Rightarrow> Inl (Wrapped ''decode spec'' JSONError)
              | Some s \<Rightarrow> Inr s))"

text \<open>
  What \<^verbatim>\<open>enc.Encode(spec.Process)\<close> sends to the child, as the child reads it: a string
  is written with its invalid bytes replaced. A slice without elements is written as
  \<^verbatim>\<open>[]\<close>, or as \<^verbatim>\<open>null\<close> when it is nil; the child reads a slice without elements from
  both, and \<^verbatim>\<open>JArr []\<close> stands for both here.
\<close>

definition encodeProcess :: "Process option \<Rightarrow> json" where
  "encodeProcess pp =
     (case pp of
        None \<Rightarrow> JNull
      | Some p \<Rightarrow>
          JObj
            [(''terminal'', JBool (Terminal p)),
             (''args'', JArr (map (\<lambda>s. JStr (toValidUTF8 s)) (Args p))),
             (''env'', JArr (map (\<lambda>s. JStr (toValidUTF8 s)) (Env p))),
             (''cwd'', JStr (toValidUTF8 (Cwd p)))])"

subsection \<open>Package state: the State Store\<close>

type_synonym Status = string

definition Created :: Status where "Created = ''created''"
definition Running :: Status where "Running = ''running''"
definition Stopped :: Status where "Stopped = ''stopped''"

record ContainerState =
  ID :: string
  Bundle :: string
  Pid :: int
  Status :: Status
  CreatedAt :: time
  StartedAt :: "time option"
  ExitedAt :: "time option"
  ExitCode :: "int option"
  Annotations :: gomap
  PidFile :: string

definition zeroState :: ContainerState where
  "zeroState =
     \<lparr>ID = [], Bundle = [], Pid = 0, Status = [], CreatedAt = zeroTime, StartedAt = None,
      ExitedAt = None, ExitCode = None, Annotations = None, PidFile = []\<rparr>"

definition dirFor :: "path \<Rightarrow> string \<Rightarrow> path" where
  "dirFor stateRoot i = Join stateRoot i"

definition pathFor :: "path \<Rightarrow> string \<Rightarrow> path" where
  "pathFor stateRoot i = Join (dirFor stateRoot i) ''state.json''"

definition Exists :: "fs \<Rightarrow> path \<Rightarrow> string \<Rightarrow> bool" where
  "Exists f stateRoot i = Stat f (pathFor stateRoot i)"

text \<open>
  The members that a map writes: its keys in byte order, keys and values with their
  invalid bytes replaced.
\<close>

definition encodeMap :: "(string, string) fmap \<Rightarrow> (string \<times> json) list" where
  "encodeMap m =
     map (\<lambda>k. (toValidUTF8 k, JStr (toValidUTF8 (the (fmlookup m k)))))
       (sorted_list_of_fset (fmdom m))"

text \<open>
  The JSON document of a record, by the tags of the struct: the five fields tagged
  \<^verbatim>\<open>omitempty\<close> are left out when nil or empty (a map with no entry is empty). The
  encoder fails, \<^term>\<open>None\<close>, when a timestamp cannot be written.
\<close>

definition encodeState :: "ContainerState \<Rightarrow> json option" where
  "encodeState st =
     (if marshalable (CreatedAt st)
         \<and> (case StartedAt st of None \<Rightarrow> True | Some t \<Rightarrow> marshalable t)
         \<and> (case ExitedAt st of None \<Rightarrow> True | Some t \<Rightarrow> marshalable t)
      then Some (JObj
       ([(''id'', JStr (toValidUTF8 (ID st))),
         (''bundle'', JStr (toValidUTF8 (Bundle st))),
         (''pid'', JNum (Pid st)),
         (''status'', JStr (toValidUTF8 (Status st))),
         (''createdAt'', JTime (CreatedAt st))]
        @ (case StartedAt st of None \<Rightarrow> [] | Some t \<Rightarrow> [(''startedAt'', JTime t)])
        @ (case ExitedAt st of None \<Rightarrow> [] | Some t \<Rightarrow> [(''exitedAt'', JTime t)])
        @ (case ExitCode st of None \<Rightarrow> [] | Some c \<Rightarrow> [(''exitCode'', JNum c)])
        @ (case Annotations st of
             None \<Rightarrow> []
           | Some m \<Rightarrow> if m = fmempty then [] else [(''annotations'', JObj (encodeMap m))])
        @ (if PidFile st = [] then [] else [(''pidFile'', JStr (toValidUTF8 (PidFile st)))])))
      else None)"

definition setStateField :: "ContainerState \<Rightarrow> string \<times> json \<Rightarrow> ContainerState option" where
  "setStateField st kv =
     (case matchField
        [''id'', ''bundle'', ''pid'', ''status'', ''createdAt'', ''startedAt'', ''exitedAt'',
         ''exitCode'', ''annotations'', ''pidFile''] (fst kv) of
        None \<Rightarrow> Some st
      | Some n \<Rightarrow>
          if n = ''id'' then map_option (\<lambda>x. st\<lparr>ID := x\<rparr>) (intoString (ID st) (snd kv))
          else if n = ''bundle'' then
            map_option (\<lambda>x. st\<lparr>Bundle := x\<rparr>) (intoString (Bundle st) (snd kv))
          else if n = ''pid'' then map_option (\<lambda>x. st\<lparr>Pid := x\<rparr>) (intoInt (Pid st) (snd kv))
          else if n = ''status'' then
            map_option (\<lambda>x. st\<lparr>Status := x\<rparr>) (intoString (Status st) (snd kv))
          else if n = ''createdAt'' then
            map_option (\<lambda>x. st\<lparr>CreatedAt := x\<rparr>) (intoTime (CreatedAt st) (snd kv))
          else if n = ''startedAt'' then
            map_option (\<lambda>x. st\<lparr>StartedAt := x\<rparr>) (intoTimePtr (StartedAt st) (snd kv))
          else if n = ''exitedAt'' then
            map_option (\<lambda>x. st\<lparr>ExitedAt := x\<rparr>) (intoTimePtr (ExitedAt st) (snd kv))
          else if n = ''exitCode'' then
            map_option (\<lambda>x. st\<lparr>ExitCode := x\<rparr>) (intoIntPtr (ExitCode st) (snd kv))
          else if n = ''annotations'' then
            map_option (\<lambda>x. st\<lparr>Annotations := x\<rparr>) (intoStringMap (Annotations st) (snd kv))
          else map_option (\<lambda>x. st\<lparr>PidFile := x\<rparr>) (intoString (PidFile st) (snd kv)))"

text \<open>\<^verbatim>\<open>json.Unmarshal(b, &st)\<close> into the zero record.\<close>

fun decodeState :: "json \<Rightarrow> ContainerState option" where
  "decodeState JNull = Some zeroState"
| "decodeState (JObj ms) = decodeMembers setStateField zeroState ms"
| "decodeState _ = None"

text \<open>
  A store operation returns its error and the file-system states it goes through,
  one after each system call that changes the file system: these are the states
  another process can read. \<^term>\<open>final\<close> is the state it leaves.
\<close>

definition final :: "fs \<Rightarrow> 'e \<times> fs list \<Rightarrow> fs" where
  "final f r = last (f # snd r)"

text \<open>
  \<^verbatim>\<open>Create\<close> makes the directory, refuses an existing \<^verbatim>\<open>state.json\<close>, then opens
  \<^verbatim>\<open>state.json\<close> itself and writes the record into it.
\<close>

definition Create :: "fs \<Rightarrow> time \<Rightarrow> path \<Rightarrow> ContainerState \<Rightarrow> error option \<times> fs list" where
  "Create f now stateRoot st =
     (let d = dirFor stateRoot (ID st) in
      (case MkdirAll f d of
         Inl e \<Rightarrow> (Some (Errno e), [])
       | Inr f1 \<Rightarrow>
          (let p = pathFor stateRoot (ID st) in
           if Stat f1 p then (Some (AlreadyExists (ID st)), [f1])
           else
            (let st1 = st\<lparr>CreatedAt := now, Status := Created\<rparr> in
             (case OpenFile f1 p of
                Inl e \<Rightarrow> (Some (Errno e), [f1])
              | Inr f2 \<Rightarrow>
                 (case encodeState st1 of
                    None \<Rightarrow> (Some JSONError, [f1, f2])
                  | Some j \<Rightarrow> (None, [f1, f2, writeTo f2 p (Doc j)])))))))"

definition Load :: "fs \<Rightarrow> path \<Rightarrow> string \<Rightarrow> error + ContainerState" where
  "Load f stateRoot i =
     (case ReadFile f (pathFor stateRoot i) of
        Inl e \<Rightarrow> Inl (Errno e)
      | Inr (Text t) \<Rightarrow> Inl JSONError
      | Inr (Doc j) \<Rightarrow>
          (case decodeState j of None \<Rightarrow> Inl JSONError | Some st \<Rightarrow> Inr st))"

text \<open>
  \<^verbatim>\<open>Save\<close> writes the record to \<^verbatim>\<open>state.json.tmp\<close> and renames it over \<^verbatim>\<open>state.json\<close>;
  when the encoder fails, the empty \<^verbatim>\<open>state.json.tmp\<close> stays.
\<close>

definition Save :: "fs \<Rightarrow> path \<Rightarrow> ContainerState \<Rightarrow> error option \<times> fs list" where
  "Save f stateRoot st =
     (let p = pathFor stateRoot (ID st);
          tmp = withSuffix p ''.tmp''
      in (case OpenFile f tmp of
            Inl e \<Rightarrow> (Some (Errno e), [])
          | Inr f1 \<Rightarrow>
             (case encodeState st of
                None \<Rightarrow> (Some JSONError, [f1])
              | Some j \<Rightarrow>
                 (let f2 = writeTo f1 tmp (Doc j) in
                  (case Rename f2 tmp p of
                     Inl e \<Rightarrow> (Some (Errno e), [f1, f2])
                   | Inr f3 \<Rightarrow> (None, [f1, f2, f3]))))))"

definition Delete :: "fs \<Rightarrow> path \<Rightarrow> string \<Rightarrow> error option \<times> fs list" where
  "Delete f stateRoot i =
     (if nulPath (dirFor stateRoot i) then (Some (Errno EINVAL), [])
      else if underFile f (dirFor stateRoot i) then (Some (Errno ENOTDIR), [])
      else (None, [RemoveAll f (dirFor stateRoot i)]))"

definition EnsureStopped :: "ContainerState \<Rightarrow> error option" where
  "EnsureStopped st = (if Status st = Running then Some (Msg ''container is running'') else None)"

subsection \<open>The supervisor's execution policy\<close>

text \<open>The process environment: \<^verbatim>\<open>os.Getenv\<close> of an unset variable is the empty string.\<close>

type_synonym environ = "string \<rightharpoonup> string"

definition Getenv :: "environ \<Rightarrow> string \<Rightarrow> string" where
  "Getenv env k = (case env k of None \<Rightarrow> [] | Some v \<Rightarrow> v)"

definition truthy :: "string \<Rightarrow> bool" where
  "truthy v = (v = ''1'' \<or> EqualFold v ''true'' \<or> EqualFold v ''yes'')"

text \<open>The loop over \<^verbatim>\<open>p.Env\<close> in \<^verbatim>\<open>cmdInit\<close>, with its \<^verbatim>\<open>break\<close>.\<close>

fun envHostLoop :: "string list \<Rightarrow> bool" where
  "envHostLoop [] = False"
| "envHostLoop (e # es) =
     (if HasPrefix e ''RUNPROC_HOST='' then
        (let val = TrimPrefix e ''RUNPROC_HOST=''
         in if truthy val then True else envHostLoop es)
      else envHostLoop es)"

text \<open>
  \<^verbatim>\<open>hostMode\<close> as \<^verbatim>\<open>cmdInit\<close> computes it from the supervisor's own environment, the
  declared environment of the target process and the annotations of the Spec
  (\<^term>\<open>None\<close> is the nil map).
\<close>

definition hostMode :: "environ \<Rightarrow> string list \<Rightarrow> gomap \<Rightarrow> bool" where
  "hostMode env penv annotations =
     (let hm0 = (if truthy (Getenv env ''RUNPROC_HOST'') then True else False);
          hm1 = (if \<not> hm0 then envHostLoop penv else hm0)
      in case annotations of
           None \<Rightarrow> hm1
         | Some m \<Rightarrow>
             (case fmlookup m ''runproc.host'' of
                None \<Rightarrow> hm1
              | Some v \<Rightarrow> if truthy v then True else hm1))"

text \<open>
  \<^verbatim>\<open>os.Setenv\<close>: EINVAL for an empty key, a key with \<open>=\<close> or a NUL byte, or a value
  with a NUL byte; the environment is then unchanged.
\<close>

definition Setenv :: "environ \<Rightarrow> string \<Rightarrow> string \<Rightarrow> errno option \<times> environ" where
  "Setenv env k v =
     (if k = [] \<or> CHR ''='' \<in> set k \<or> CHR 0x00 \<in> set k \<or> CHR 0x00 \<in> set v
      then (Some EINVAL, env)
      else (None, env(k \<mapsto> v)))"

text \<open>The environment set-up of \<^verbatim>\<open>cmdInit\<close>; the result of \<^verbatim>\<open>os.Setenv\<close> is not read.\<close>

definition setEntry :: "environ \<Rightarrow> string \<Rightarrow> environ" where
  "setEntry env e =
     (let kv = SplitN2 e
      in if length kv = 2 then snd (Setenv env (kv ! 0) (kv ! 1)) else env)"

definition setupEnv :: "environ \<Rightarrow> string list \<Rightarrow> environ" where
  "setupEnv env penv =
     (if length penv > 0 then foldl setEntry Map.empty penv else env)"

subsection \<open>The supervisor: cmdInit\<close>

text \<open>
  The process that runs \<^verbatim>\<open>cmdInit\<close>: the directory that is its root, its working
  directory (a path under that root) and its environment. The kernel's answers to
  \<^verbatim>\<open>chroot\<close>, \<^verbatim>\<open>chdir\<close> and \<^verbatim>\<open>exec\<close> (\<^term>\<open>None\<close> is success) and the effective user
  id are given.
\<close>

record proc =
  p_root :: path
  p_cwd :: path
  p_env :: environ

record kernel =
  k_chroot :: "path \<Rightarrow> errno option"
  k_chdir :: "path \<Rightarrow> errno option"
  k_exec :: "path \<Rightarrow> errno option"
  k_euid :: int

datatype syscall = Chroot path | Chdir path

text \<open>
  The directory that \<^verbatim>\<open>cmdInit\<close> hands to \<^verbatim>\<open>chroot\<close>: the root path of the Spec,
  joined to the bundle when it is not absolute.
\<close>

definition rootTarget :: "proc \<Rightarrow> ContainerState \<Rightarrow> Root \<Rightarrow> path" where
  "rootTarget pr st r =
     (if \<not> IsAbs (Path r) then Join (absPath (p_cwd pr) (Bundle st)) (Path r)
      else absPath (p_cwd pr) (Path r))"

text \<open>
  The root-change step of \<^verbatim>\<open>cmdInit\<close>: its error, the process afterwards and the system
  calls it made, in order.
\<close>

definition rootChange ::
    "kernel \<Rightarrow> bool \<Rightarrow> Spec \<Rightarrow> ContainerState \<Rightarrow> proc \<Rightarrow> error option \<times> proc \<times> syscall list" where
  "rootChange k hm spec st pr =
     (if \<not> hm \<and> Root spec \<noteq> None \<and> Path (the (Root spec)) \<noteq> [] \<and> k_euid k = 0 then
        (let rootfs = rootTarget pr st (the (Root spec))
         in case k_chroot k rootfs of
              Some e \<Rightarrow> (Some (Wrapped ''chroot'' (Errno e)), pr, [Chroot rootfs])
            | None \<Rightarrow>
                (let pr1 = pr\<lparr>p_root := p_root pr @ rootfs\<rparr>
                 in case k_chdir k [] of
                      Some e \<Rightarrow>
                        (Some (Wrapped ''chdir after chroot'' (Errno e)), pr1, [Chroot rootfs, Chdir []])
                    | None \<Rightarrow> (None, pr1\<lparr>p_cwd := []\<rparr>, [Chroot rootfs, Chdir []])))
      else (None, pr, []))"

text \<open>
  The wait for the start marker: the file system as each poll finds it; the loop ends at
  the first one that holds the marker, and never if there is none.
\<close>

fun waitStart :: "fs list \<Rightarrow> path \<Rightarrow> fs option" where
  "waitStart [] p = None"
| "waitStart (f # r) p = (if Stat f p then Some f else waitStart r p)"

text \<open>The message of the pipe, read into a \<^verbatim>\<open>Process\<close> value (\<^verbatim>\<open>null\<close> leaves it zero).\<close>

definition decodeMessage :: "json option \<Rightarrow> Process option" where
  "decodeMessage msg =
     (case msg of
        None \<Rightarrow> None
      | Some j \<Rightarrow> intoProcess zeroProcess j)"

text \<open>
  How \<^verbatim>\<open>cmdInit\<close> ends: with an error, with the panic of \<^verbatim>\<open>p.Args[0]\<close> on an empty
  argument vector, or as the target program (the process, the path executed and the
  argument vector).
\<close>

datatype outcome = Failed error | Panicked | Replaced proc path "string list"

definition cmdInit ::
    "fs list \<Rightarrow> kernel \<Rightarrow> proc \<Rightarrow> json option \<Rightarrow> path \<Rightarrow> string \<Rightarrow> outcome option" where
  "cmdInit fss k pr msg stateDir i =
     (case decodeMessage msg of
        None \<Rightarrow> Some (Failed (Wrapped ''init decode process'' JSONError))
      | Some p \<Rightarrow>
     (case waitStart fss (Join (Join stateDir i) ''start'') of
        None \<Rightarrow> None
      | Some f \<Rightarrow>
     (case Load f stateDir i of
        Inl e \<Rightarrow> Some (Failed (Wrapped ''load state'' e))
      | Inr st \<Rightarrow>
     (case LoadSpec f (p_cwd pr) (Bundle st) of
        Inl e \<Rightarrow> Some (Failed (Wrapped ''load spec'' e))
      | Inr spec \<Rightarrow>
     (let hm = hostMode (p_env pr) (Env p) (SpecAnnotations spec);
          rc = rootChange k hm spec st pr;
          pr1 = fst (snd rc)
      in case fst rc of
           Some e \<Rightarrow> Some (Failed e)
         | None \<Rightarrow>
     (case Args p of
        [] \<Rightarrow> Some Panicked
      | a0 # rest \<Rightarrow>
     (let argv = (if length (Args p) > 1 then Args p else [a0]);
          cd = (if Cwd p \<noteq> [] then k_chdir k (absPath (p_cwd pr1) (Cwd p)) else None)
      in case cd of
           Some e \<Rightarrow> Some (Failed (Wrapped ''chdir'' (Errno e)))
         | None \<Rightarrow>
     (let pr2 = (if Cwd p \<noteq> [] then pr1\<lparr>p_cwd := absPath (p_cwd pr1) (Cwd p)\<rparr> else pr1);
          pr3 = pr2\<lparr>p_env := setupEnv (p_env pr2) (Env p)\<rparr>;
          exe = absPath (p_cwd pr3) (hd argv)
      in case k_exec k exe of
           Some e \<Rightarrow> Some (Failed (Errno e))
         | None \<Rightarrow> Some (Replaced pr3 exe argv)))))))))"

subsection \<open>The commands of the controller\<close>

text \<open>
  What the operating system answers while \<^verbatim>\<open>cmdCreate\<close> runs: \<^verbatim>\<open>os.Pipe\<close>,
  \<^verbatim>\<open>os.Executable\<close>, \<^verbatim>\<open>cmd.Start\<close> (the pid of the child) and the write to the pipe.
\<close>

record spawner =
  sp_pipe :: "errno option"
  sp_executable :: "errno option"
  sp_start :: "errno + int"
  sp_encode :: "errno option"

text \<open>
  What a command does to other processes: the child it starts, kills and releases, the
  message it writes to the pipe, and a call of \<^verbatim>\<open>syscall.Kill\<close>, with the pid that the
  program passes and the signal that the kernel is handed (\<^verbatim>\<open>cmdKill\<close> records the call
  that succeeds; \<^verbatim>\<open>cmdDelete\<close> does not read the result of its call).
\<close>

datatype event = Spawned int | Killed int | Released int | Sent json | Signalled int Signal

definition cmdCreate ::
    "fs \<Rightarrow> time \<Rightarrow> spawner \<Rightarrow> path \<Rightarrow> path \<Rightarrow> string \<Rightarrow> string \<Rightarrow> string
      \<Rightarrow> error option \<times> fs \<times> event list" where
  "cmdCreate f now os cwd stateDir i bundle pidFile =
     (if Exists f stateDir i then (Some (AlreadyExists i), f, [])
      else
     (case LoadSpec f cwd bundle of
        Inl e \<Rightarrow> (Some e, f, [])
      | Inr spec \<Rightarrow>
     (case sp_pipe os of
        Some e \<Rightarrow> (Some (Errno e), f, [])
      | None \<Rightarrow>
     (case sp_executable os of
        Some e \<Rightarrow> (Some (Errno e), f, [])
      | None \<Rightarrow>
     (case sp_start os of
        Inl e \<Rightarrow> (Some (Wrapped ''start init'' (Errno e)), f, [])
      | Inr pid \<Rightarrow>
     (let st = zeroState\<lparr>ID := i, Bundle := bundle, Pid := pid\<rparr>;
          r = Create f now stateDir st;
          f1 = final f r
      in case fst r of
           Some e \<Rightarrow> (Some e, f1, [Spawned pid, Killed pid, Released pid])
         | None \<Rightarrow>
     (case (if pidFile \<noteq> [] then WriteFile f1 (absPath cwd pidFile) (Doc (JNum pid)) else Inr f1) of
        Inl e \<Rightarrow> (Some (Wrapped ''write pid-file'' (Errno e)), f1, [Spawned pid])
      | Inr f2 \<Rightarrow>
     (case sp_encode os of
        Some e \<Rightarrow> (Some (Wrapped ''encode process to child'' (Errno e)), f2, [Spawned pid])
      | None \<Rightarrow> (None, f2, [Spawned pid, Sent (encodeProcess (Process spec))])))))))))"

definition cmdStart :: "fs \<Rightarrow> time \<Rightarrow> path \<Rightarrow> string \<Rightarrow> error option \<times> fs" where
  "cmdStart f now stateDir i =
     (case Load f stateDir i of
        Inl e \<Rightarrow> (Some e, f)
      | Inr st \<Rightarrow>
          if Status st = Running then (None, f)
          else
           (case WriteFile f (Join (Join stateDir i) ''start'') (Text ''start'') of
              Inl e \<Rightarrow> (Some (Errno e), f)
            | Inr f1 \<Rightarrow>
               (let r = Save f1 stateDir (st\<lparr>Status := Running, StartedAt := Some now\<rparr>)
                in (fst r, final f1 r))))"

text \<open>The self-heal shared by \<^verbatim>\<open>cmdState\<close> and \<^verbatim>\<open>cmdDelete\<close>; the result of \<^verbatim>\<open>Save\<close> is not read.\<close>

definition markStopped :: "fs \<Rightarrow> time \<Rightarrow> path \<Rightarrow> ContainerState \<Rightarrow> ContainerState \<times> fs" where
  "markStopped f now stateDir st =
     (let st1 = st\<lparr>Status := Stopped, ExitedAt := Some now\<rparr>
      in (st1, final f (Save f stateDir st1)))"

definition cmdState ::
    "fs \<Rightarrow> time \<Rightarrow> sys_kill \<Rightarrow> path \<Rightarrow> string \<Rightarrow> error option \<times> fs \<times> json option" where
  "cmdState f now kill stateDir i =
     (case Load f stateDir i of
        Inl e \<Rightarrow> (Some e, f, None)
      | Inr st \<Rightarrow>
         (let r = (if Status st = Running \<and> \<not> pidAlive kill (Pid st)
                   then markStopped f now stateDir st else (st, f));
              st1 = fst r
          in (None, snd r,
              Some (JObj
                [(''bundle'', JStr (toValidUTF8 (Bundle st1))), (''id'', JStr (toValidUTF8 (ID st1))),
                 (''pid'', JNum (Pid st1)), (''status'', JStr (toValidUTF8 (Status st1)))]))))"

definition cmdKill ::
    "fs \<Rightarrow> sys_kill \<Rightarrow> path \<Rightarrow> string \<Rightarrow> string \<Rightarrow> error option \<times> event list" where
  "cmdKill f kill stateDir i signal =
     (case Load f stateDir i of
        Inl e \<Rightarrow> if IsNotExist e then (None, []) else (Some e, [])
      | Inr st \<Rightarrow>
          if Pid st \<le> 0 then (Some NoPid, [])
          else
           (let sig = resolveSignal signal
            in case kill (Pid st) (cint sig) of
                 Some e \<Rightarrow> (Some (Errno e), [])
               | None \<Rightarrow> (None, [Signalled (Pid st) (cint sig)])))"

text \<open>
  The bounded wait of \<^verbatim>\<open>cmdDelete\<close>: up to \<open>n\<close> probes, the \<open>k\<close>-th call of the kernel
  answered by \<open>probes k\<close>; true when a probe finds the process gone.
\<close>

fun deleteWait :: "(nat \<Rightarrow> sys_kill) \<Rightarrow> int \<Rightarrow> nat \<Rightarrow> nat \<Rightarrow> bool" where
  "deleteWait probes pid k 0 = False"
| "deleteWait probes pid k (Suc n) =
     (if \<not> pidAlive (probes k) pid then True else deleteWait probes pid (Suc k) n)"

definition cmdDelete ::
    "fs \<Rightarrow> time \<Rightarrow> (nat \<Rightarrow> sys_kill) \<Rightarrow> path \<Rightarrow> string \<Rightarrow> error option \<times> fs \<times> event list" where
  "cmdDelete f now probes stateDir i =
     (case Load f stateDir i of
        Inl e \<Rightarrow> if IsNotExist e then (None, f, []) else (Some e, f, [])
      | Inr st \<Rightarrow>
         (let r = (if Status st = Running then
                     (if \<not> pidAlive (probes 0) (Pid st)
                      then (snd (markStopped f now stateDir st), [])
                      else ((if deleteWait probes (Pid st) 2 20
                             then snd (markStopped f now stateDir st) else f),
                            [Signalled (Pid st) SIGKILL]))
                   else (f, []));
              d = Delete (fst r) stateDir i
          in ((case fst d of
                 None \<Rightarrow> None
               | Some e \<Rightarrow> if IsNotExist e then None else Some e),
              final (fst r) d, snd r)))"

text \<open>
  \<^verbatim>\<open>waitProcess\<close>: the answers of successive \<^verbatim>\<open>Wait4\<close> calls are given; the loop goes on
  after EINTR and has not returned (\<^term>\<open>None\<close>) when the answers run out.
\<close>

text \<open>
  A wait status: \<^verbatim>\<open>Exited n\<close> is the status word of a process that exited, with \<open>n\<close> in
  the bits above its low byte; \<^verbatim>\<open>ExitStatus\<close> reads eight of them.
\<close>

datatype WaitStatus = Exited int | Signaled Signal | OtherStatus

fun ExitStatus :: "WaitStatus \<Rightarrow> int" where
  "ExitStatus (Exited n) = n mod 256"
| "ExitStatus _ = - 1"

datatype wait_res = WaitErr errno | Waited int WaitStatus

fun waitLoop :: "int \<Rightarrow> wait_res list \<Rightarrow> (errno + WaitStatus) option" where
  "waitLoop pid [] = None"
| "waitLoop pid (WaitErr e # rest) = (if e = EINTR then waitLoop pid rest else Some (Inl e))"
| "waitLoop pid (Waited wpid ws # rest) = (if wpid = pid then Some (Inr ws) else waitLoop pid rest)"

definition waitProcess ::
    "fs \<Rightarrow> time \<Rightarrow> wait_res list \<Rightarrow> path \<Rightarrow> string \<Rightarrow> ((int \<times> error option) \<times> fs) option" where
  "waitProcess f now waits stateDir i =
     (case Load f stateDir i of
        Inl e \<Rightarrow> Some ((1, Some e), f)
      | Inr st \<Rightarrow>
          if Pid st \<le> 0 then Some ((1, Some NoPid), f)
          else
           (case waitLoop (Pid st) waits of
              None \<Rightarrow> None
            | Some (Inl e) \<Rightarrow> Some ((1, Some (Errno e)), f)
            | Some (Inr ws) \<Rightarrow>
               (let code = ExitStatus ws;
                    st1 = st\<lparr>Status := Stopped, ExitedAt := Some now, ExitCode := Some code\<rparr>
                in Some ((code, None), final f (Save f stateDir st1)))))"

text \<open>
  The \<^verbatim>\<open>run\<close> case of \<^verbatim>\<open>run()\<close> in cli.go, from the parsed id, bundle and pid file, for an
  invocation without \<^verbatim>\<open>--log\<close> (\<^verbatim>\<open>writeOCIErrorLog\<close> then does nothing). The result is
  the exit code that \<^verbatim>\<open>run()\<close> returns and the file system it leaves. The clock is read
  once in each of the three commands.
\<close>

definition runCommand ::
    "fs \<Rightarrow> time \<Rightarrow> time \<Rightarrow> time \<Rightarrow> spawner \<Rightarrow> (nat \<Rightarrow> sys_kill) \<Rightarrow> wait_res list
      \<Rightarrow> path \<Rightarrow> path \<Rightarrow> string \<Rightarrow> string \<Rightarrow> string \<Rightarrow> (int \<times> fs) option" where
  "runCommand f now1 now2 now3 os probes waits cwd sd i bundle pidFile =
     (let c = cmdCreate f now1 os cwd sd i bundle pidFile
      in case fst c of
           Some e \<Rightarrow> Some (1, fst (snd c))
         | None \<Rightarrow>
            (let s = cmdStart (fst (snd c)) now2 sd i
             in case fst s of
                  Some e \<Rightarrow> Some (1, fst (snd (cmdDelete (snd s) now2 probes sd i)))
                | None \<Rightarrow>
                   (case waitProcess (snd s) now3 waits sd i of
                      None \<Rightarrow> None
                    | Some w \<Rightarrow>
                       (case snd (fst w) of
                          Some e \<Rightarrow> Some (1, snd w)
                        | None \<Rightarrow> Some (0, snd w)))))"

subsection \<open>What Load returns after Save\<close>

text \<open>
  The record as it comes back from the store. Every string has its invalid bytes
  replaced. \<^verbatim>\<open>omitempty\<close> leaves a map without entries out of the document, and the
  missing key is read as the nil map; the entries of another map are written in the
  order of their keys and read back one by one, so that of two keys that the
  replacement makes equal the later one stays. The numbers and the timestamps are as
  they were.
\<close>

definition reloadedMap :: "(string, string) fmap \<Rightarrow> (string, string) fmap" where
  "reloadedMap m =
     foldl (\<lambda>acc k. fmupd (toValidUTF8 k) (toValidUTF8 (the (fmlookup m k))) acc) fmempty
       (sorted_list_of_fset (fmdom m))"

definition reloaded :: "ContainerState \<Rightarrow> ContainerState" where
  "reloaded st =
     st\<lparr>ID := toValidUTF8 (ID st),
        Bundle := toValidUTF8 (Bundle st),
        Status := toValidUTF8 (Status st),
        Annotations :=
          (case Annotations st of
             None \<Rightarrow> None
           | Some m \<Rightarrow> if m = fmempty then None else Some (reloadedMap m)),
        PidFile := toValidUTF8 (PidFile st)\<rparr>"

text \<open>The numbers of a record are Go \<^verbatim>\<open>int\<close>s.\<close>

definition goInts :: "ContainerState \<Rightarrow> bool" where
  "goInts st = (goInt (Pid st) \<and> (case ExitCode st of None \<Rightarrow> True | Some c \<Rightarrow> goInt c))"



subsection \<open>A concrete bundle, store and run\<close>

text \<open>
  The bundle \<^verbatim>\<open>/b\<close> whose process is \<^verbatim>\<open>/bin/sh -c "exit 3"\<close>, the state directory
  \<^verbatim>\<open>/run/runproc\<close>, a child that gets pid 4242, and the record of container \<^verbatim>\<open>c1\<close>
  as \<^verbatim>\<open>create\<close> writes it at time 100.
\<close>

definition demoConfig :: json where
  "demoConfig =
     JObj
       [(''ociVersion'', JStr ''1.1.0''),
        (''process'', JObj
           [(''terminal'', JBool False),
            (''args'', JArr [JStr ''/bin/sh'', JStr ''-c'', JStr ''exit 3'']),
            (''cwd'', JStr ''/''),
            (''env'', JArr [JStr ''PATH=/bin''])]),
        (''root'', JObj [(''path'', JStr ''/''), (''readonly'', JBool False)])]"

definition demoFs :: fs where
  "demoFs = \<lparr>files = [[''b'', ''config.json''] \<mapsto> Doc demoConfig],
             dirs = {[''b''], [''run''], [''run'', ''runproc'']}\<rparr>"

definition demoSpawner :: spawner where
  "demoSpawner = \<lparr>sp_pipe = None, sp_executable = None, sp_start = Inr 4242, sp_encode = None\<rparr>"

definition demoRecord :: ContainerState where
  "demoRecord = \<lparr>ID = ''c1'', Bundle = ''/b'', Pid = 4242, Status = ''created'', CreatedAt = 100,
     StartedAt = None, ExitedAt = None, ExitCode = None, Annotations = None, PidFile = []\<rparr>"

definition demoDir :: path where
  "demoDir = [''run'', ''runproc'']"

definition demoStore :: fs where
  "demoStore = final demoFs (Create demoFs 100 demoDir (zeroState\<lparr>ID := ''c1'', Bundle := ''/b'', Pid := 4242\<rparr>))"


text \<open>A bundle whose process declares the empty argument vector.\<close>

definition emptyArgsFs :: fs where
  "emptyArgsFs =
     \<lparr>files = [[''b'', ''config.json''] \<mapsto>
        Doc (JObj
          [(''ociVersion'', JStr ''1.1.0''),
           (''process'', JObj [(''args'', JArr []), (''env'', JArr []), (''cwd'', JStr ''/'')])])],
      dirs = {[''b''], [''run''], [''run'', ''runproc'']}\<rparr>"

section \<open>Properties\<close>

subsection \<open>Case folding\<close>










subsection \<open>The environment and the signal argument\<close>







lemma foldl_digits_nonneg:
  "list_all isDigit s \<Longrightarrow> 0 \<le> acc \<Longrightarrow> 0 \<le> foldl (\<lambda>acc c. acc * 10 + digitVal c) acc s"
  by (induction s arbitrary: acc) (auto simp: isDigit_def digitVal_def)

lemma digitsVal_nonneg: "isAllDigits s \<Longrightarrow> 0 \<le> digitsVal s"
  by (auto simp: isAllDigits_def digitsVal_def foldl_digits_nonneg split: if_splits)

lemma isAllDigits_hd: "isAllDigits s \<Longrightarrow> \<exists>c r. s = c # r \<and> isDigit c"
  by (cases s) (auto simp: isAllDigits_def)

lemma digits_no_prefix:
  assumes "isAllDigits s"
  shows "\<not> HasPrefix s ''SIG''" "\<not> HasPrefix s ''-''" "\<not> HasPrefix s ''+''" "s \<noteq> []"
    "s \<noteq> ''--all''" "s \<noteq> ''-a''"
  using isAllDigits_hd[OF assms] by (auto simp: HasPrefix_def isDigit_def)

lemma Atoi_digits:
  "isAllDigits s \<Longrightarrow> Atoi s = (if digitsVal s \<le> maxInt then Some (digitsVal s) else None)"
  using digitsVal_nonneg[of s] digits_no_prefix[of s]
  by (auto simp: Atoi_def minInt_def)

lemma resolveSignal_digits:
  "isAllDigits s \<Longrightarrow> resolveSignal s = (if digitsVal s \<le> maxInt then digitsVal s else SIGTERM)"
  using digits_no_prefix[of s] by (simp add: resolveSignal_def Atoi_digits)

lemma TrimPrefix_dash: "TrimPrefix (''-'' @ s) ''-'' = s"
  by (simp add: TrimPrefix_def HasPrefix_def)

subsection \<open>The root change\<close>



subsection \<open>The signal that cmdKill resolves\<close>

text \<open>
  The signal text that \<^verbatim>\<open>cmdKill\<close> is given: empty is SIGTERM, the four names are their
  signals, digits that fit the Go \<^verbatim>\<open>int\<close> are that number, everything else is SIGTERM.
  The kernel is handed the low 32 bits of the number.
\<close>

lemma resolveSignal_cases:
  "resolveSignal [] = SIGTERM
   \<and> resolveSignal ''SIGTERM'' = SIGTERM \<and> resolveSignal ''SIGKILL'' = SIGKILL
   \<and> resolveSignal ''SIGINT'' = SIGINT \<and> resolveSignal ''SIGHUP'' = SIGHUP
   \<and> (isAllDigits s \<and> digitsVal s \<le> maxInt \<longrightarrow> resolveSignal s = digitsVal s)
   \<and> (isAllDigits s \<and> maxInt < digitsVal s \<longrightarrow> resolveSignal s = SIGTERM)
   \<and> (HasPrefix n ''SIG'' \<and> sigTable n = None \<longrightarrow> resolveSignal n = SIGTERM)
   \<and> (\<not> HasPrefix n ''SIG'' \<and> Atoi n = None \<longrightarrow> resolveSignal n = SIGTERM)"
proof (intro conjI impI)
  show "resolveSignal [] = SIGTERM" by (simp add: resolveSignal_def)
  show "resolveSignal ''SIGTERM'' = SIGTERM" by (simp add: resolveSignal_def HasPrefix_def sigTable_def)
  show "resolveSignal ''SIGKILL'' = SIGKILL" by (simp add: resolveSignal_def HasPrefix_def sigTable_def)
  show "resolveSignal ''SIGINT'' = SIGINT" by (simp add: resolveSignal_def HasPrefix_def sigTable_def)
  show "resolveSignal ''SIGHUP'' = SIGHUP" by (simp add: resolveSignal_def HasPrefix_def sigTable_def)
next
  assume "isAllDigits s \<and> digitsVal s \<le> maxInt"
  then show "resolveSignal s = digitsVal s" by (simp add: resolveSignal_digits)
next
  assume "isAllDigits s \<and> maxInt < digitsVal s"
  then show "resolveSignal s = SIGTERM" by (simp add: resolveSignal_digits)
next
  assume "HasPrefix n ''SIG'' \<and> sigTable n = None"
  then show "resolveSignal n = SIGTERM" by (simp add: resolveSignal_def)
next
  assume "\<not> HasPrefix n ''SIG'' \<and> Atoi n = None"
  then show "resolveSignal n = SIGTERM" by (simp add: resolveSignal_def)
qed

lemma cint_examples:
  "cint 9 = 9 \<and> cint 4294967305 = 9 \<and> cint 65 = 65 \<and> cint (- 1) = - 1
   \<and> cint 2147483648 = - 2147483648"
  by code_simp

subsection \<open>The Spec loader and the documents of the store\<close>

text \<open>
  The decoder reads the members of a document in order. The document that the encoder
  writes for a record is read back as \<^term>\<open>reloaded\<close> of the record, which is the record
  itself when its strings are valid UTF-8 and its map is nil or has an entry.
\<close>

lemma toValidUTF8_examples:
  "toValidUTF8 [CHR 0xC3, CHR 0xA9] = [CHR 0xC3, CHR 0xA9]
   \<and> toValidUTF8 [CHR 0xC3] = [CHR 0xEF, CHR 0xBF, CHR 0xBD]
   \<and> toValidUTF8 [CHR 0xE2, CHR 0x82, CHR 0xAC, CHR ''a''] = [CHR 0xE2, CHR 0x82, CHR 0xAC, CHR ''a'']
   \<and> toValidUTF8 [CHR 0xED, CHR 0xA0, CHR 0x80]
        = [CHR 0xEF, CHR 0xBF, CHR 0xBD, CHR 0xEF, CHR 0xBF, CHR 0xBD, CHR 0xEF, CHR 0xBF, CHR 0xBD]
   \<and> toValidUTF8 [CHR 0xF0, CHR 0x9F, CHR 0x98, CHR 0x80] = [CHR 0xF0, CHR 0x9F, CHR 0x98, CHR 0x80]
   \<and> toValidUTF8 [CHR 0xC0, CHR 0x80] = [CHR 0xEF, CHR 0xBF, CHR 0xBD, CHR 0xEF, CHR 0xBF, CHR 0xBD]
   \<and> toValidUTF8 [CHR 0xF4, CHR 0x90, CHR 0x80, CHR 0x80]
        = [CHR 0xEF, CHR 0xBF, CHR 0xBD, CHR 0xEF, CHR 0xBF, CHR 0xBD, CHR 0xEF, CHR 0xBF, CHR 0xBD,
           CHR 0xEF, CHR 0xBF, CHR 0xBD]"
  by code_simp

lemma LoadSpec_iff:
  "(LoadSpec f cwd bundle = Inr s)
     = (\<not> nulPath (Join (absPath cwd bundle) ''config.json'')
        \<and> \<not> underFile f (Join (absPath cwd bundle) ''config.json'')
        \<and> (\<exists>j. files f (Join (absPath cwd bundle) ''config.json'') = Some (Doc j)
                \<and> decodeSpec j = Some s))"
  by (auto simp: LoadSpec_def ReadFile_def Let_def split: option.splits sum.splits content.splits)

lemma foldl_None:
  "foldl (\<lambda>acc kv. case acc of None \<Rightarrow> None | Some a \<Rightarrow> g a kv) None ms = None"
  by (induction ms) simp_all

lemma decodeMembers_Nil: "decodeMembers g z [] = Some z"
  by (simp add: decodeMembers_def)

lemma decodeMembers_Cons:
  "decodeMembers g z (kv # ms) = (case g z kv of None \<Rightarrow> None | Some a \<Rightarrow> decodeMembers g a ms)"
  by (cases "g z kv") (simp_all add: decodeMembers_def foldl_None)

lemma decodeMembers_append:
  "decodeMembers g z (xs @ ys)
     = (case decodeMembers g z xs of None \<Rightarrow> None | Some a \<Rightarrow> decodeMembers g a ys)"
  by (induction xs arbitrary: z)
     (simp_all add: decodeMembers_Nil decodeMembers_Cons split: option.splits)

lemma decodeMembers_invariant:
  assumes "decodeMembers g z ms = Some r" "P z"
    and "\<And>a kv b. P a \<Longrightarrow> g a kv = Some b \<Longrightarrow> P b"
  shows "P r"
  using assms(1,2)
proof (induction ms arbitrary: z)
  case Nil
  then show ?case by (simp add: decodeMembers_Nil)
next
  case (Cons kv ms)
  then show ?case using assms(3)
    by (auto simp: decodeMembers_Cons split: option.splits)
qed

lemma setStateField_keys:
  "setStateField st (''id'', v) = map_option (\<lambda>x. st\<lparr>ID := x\<rparr>) (intoString (ID st) v)"
  "setStateField st (''bundle'', v) = map_option (\<lambda>x. st\<lparr>Bundle := x\<rparr>) (intoString (Bundle st) v)"
  "setStateField st (''pid'', v) = map_option (\<lambda>x. st\<lparr>Pid := x\<rparr>) (intoInt (Pid st) v)"
  "setStateField st (''status'', v) = map_option (\<lambda>x. st\<lparr>Status := x\<rparr>) (intoString (Status st) v)"
  "setStateField st (''createdAt'', v) = map_option (\<lambda>x. st\<lparr>CreatedAt := x\<rparr>) (intoTime (CreatedAt st) v)"
  "setStateField st (''startedAt'', v) = map_option (\<lambda>x. st\<lparr>StartedAt := x\<rparr>) (intoTimePtr (StartedAt st) v)"
  "setStateField st (''exitedAt'', v) = map_option (\<lambda>x. st\<lparr>ExitedAt := x\<rparr>) (intoTimePtr (ExitedAt st) v)"
  "setStateField st (''exitCode'', v) = map_option (\<lambda>x. st\<lparr>ExitCode := x\<rparr>) (intoIntPtr (ExitCode st) v)"
  "setStateField st (''annotations'', v)
     = map_option (\<lambda>x. st\<lparr>Annotations := x\<rparr>) (intoStringMap (Annotations st) v)"
  "setStateField st (''pidFile'', v) = map_option (\<lambda>x. st\<lparr>PidFile := x\<rparr>) (intoString (PidFile st) v)"
  by (simp_all add: setStateField_def matchField_def)

lemma putMembers_encodeMap:
  "foldl putMember (Some acc)
      (map (\<lambda>k. (toValidUTF8 k, JStr (toValidUTF8 (the (fmlookup m k))))) ks)
     = Some (foldl (\<lambda>acc k. fmupd (toValidUTF8 k) (toValidUTF8 (the (fmlookup m k))) acc) acc ks)"
  by (induction ks arbitrary: acc) (simp_all add: putMember_def)

lemma intoStringMap_encodeMap:
  "intoStringMap None (JObj (encodeMap m)) = Some (Some (reloadedMap m))"
  by (simp add: encodeMap_def reloadedMap_def putMembers_encodeMap)


lemma decode_encode:
  assumes e: "encodeState st = Some j" and g: "goInts st"
  shows "decodeState j = Some (reloaded st)"
proof -
  have m: "marshalable (CreatedAt st)
         \<and> (case StartedAt st of None \<Rightarrow> True | Some t \<Rightarrow> marshalable t)
         \<and> (case ExitedAt st of None \<Rightarrow> True | Some t \<Rightarrow> marshalable t)"
    using e by (simp add: encodeState_def split: if_splits)
  have j: "j = JObj
       ([(''id'', JStr (toValidUTF8 (ID st))),
         (''bundle'', JStr (toValidUTF8 (Bundle st))),
         (''pid'', JNum (Pid st)),
         (''status'', JStr (toValidUTF8 (Status st))),
         (''createdAt'', JTime (CreatedAt st))]
        @ (case StartedAt st of None \<Rightarrow> [] | Some t \<Rightarrow> [(''startedAt'', JTime t)])
        @ (case ExitedAt st of None \<Rightarrow> [] | Some t \<Rightarrow> [(''exitedAt'', JTime t)])
        @ (case ExitCode st of None \<Rightarrow> [] | Some c \<Rightarrow> [(''exitCode'', JNum c)])
        @ (case Annotations st of
             None \<Rightarrow> []
           | Some m \<Rightarrow> if m = fmempty then [] else [(''annotations'', JObj (encodeMap m))])
        @ (if PidFile st = [] then [] else [(''pidFile'', JStr (toValidUTF8 (PidFile st)))]))"
    using e m unfolding encodeState_def by simp
  have v: "toValidUTF8 [] = []" by (simp add: toValidUTF8_def)
  show ?thesis
    unfolding j using g
    by (cases st; cases "StartedAt st"; cases "ExitedAt st"; cases "ExitCode st";
        cases "Annotations st")
       (simp_all add: decodeMembers_Cons decodeMembers_Nil decodeMembers_append setStateField_keys
          intoStringMap_encodeMap zeroState_def reloaded_def goInts_def v
          del: intoStringMap.simps)
qed





lemma reloaded_fields:
  "Pid (reloaded st) = Pid st" "ExitCode (reloaded st) = ExitCode st"
  "CreatedAt (reloaded st) = CreatedAt st" "StartedAt (reloaded st) = StartedAt st"
  "ExitedAt (reloaded st) = ExitedAt st" "ID (reloaded st) = toValidUTF8 (ID st)"
  "Bundle (reloaded st) = toValidUTF8 (Bundle st)" "Status (reloaded st) = toValidUTF8 (Status st)"
  "PidFile (reloaded st) = toValidUTF8 (PidFile st)"
  by (simp_all add: reloaded_def)

subsection \<open>The store as another process reads it\<close>

text \<open>
  \<^verbatim>\<open>Save\<close> shows a reader the old record or the new one at every moment; \<^verbatim>\<open>Create\<close>
  shows it an empty \<^verbatim>\<open>state.json\<close> on the way.
\<close>

lemma Join_name [simp]: "Join d ''state.json'' = d @ [''state.json'']"
  by (simp add: Join_def cleanStep_def)

lemma pathFor_eq: "pathFor root i = dirFor root i @ [''state.json'']"
  by (simp add: pathFor_def)

lemma tmp_eq: "withSuffix (pathFor root i) ''.tmp'' = dirFor root i @ [''state.json.tmp'']"
  by (simp add: pathFor_eq withSuffix_def)

lemma Join_start: "Join d ''start'' = d @ [''start'']"
  by (simp add: Join_def cleanStep_def)

lemma start_path: "Join (Join sd i) ''start'' = dirFor sd i @ [''start'']"
  unfolding dirFor_def by (rule Join_start)

lemma tmp_neq: "withSuffix (pathFor sd i) ''.tmp'' \<noteq> pathFor sd i"
  unfolding tmp_eq unfolding pathFor_eq by simp

lemma tmp_length: "length (withSuffix (pathFor sd i) ''.tmp'') = length (pathFor sd i)"
  unfolding tmp_eq unfolding pathFor_eq by simp

lemma take_neq: "n < length p \<Longrightarrow> length q = length p \<Longrightarrow> take n p \<noteq> q"
  by (auto dest: arg_cong[where f = length])

lemma underFile_cong:
  "(\<And>n. n < length p \<Longrightarrow> files g (take n p) = files f (take n p))
     \<Longrightarrow> underFile g p = underFile f p"
  by (simp add: underFile_def list_ex_iff)

lemma underFile_upd:
  "length q = length p \<Longrightarrow> underFile (f\<lparr>files := (files f)(q := c)\<rparr>) p = underFile f p"
  by (rule underFile_cong) (simp add: take_neq)

lemma Load_cong:
  "files g (pathFor sd i) = files f (pathFor sd i) \<Longrightarrow> dirs g = dirs f
     \<Longrightarrow> underFile g (pathFor sd i) = underFile f (pathFor sd i)
     \<Longrightarrow> Load g sd i = Load f sd i"
  by (simp add: Load_def ReadFile_def isDir_def)

lemma OpenFile_other:
  "OpenFile f q = Inr g \<Longrightarrow> q \<noteq> p \<Longrightarrow> length q = length p
     \<Longrightarrow> files g p = files f p \<and> dirs g = dirs f \<and> underFile g p = underFile f p"
  by (auto simp: OpenFile_def underFile_upd split: if_splits)

lemma OpenFile_same:
  "OpenFile f q = Inr g \<Longrightarrow>
     files g q = Some (Text []) \<and> dirs g = dirs f \<and> \<not> nulPath q \<and> \<not> underFile f q
     \<and> \<not> underFile g q"
  by (auto simp: OpenFile_def underFile_upd split: if_splits)

lemma underFile_sibling:
  "length q = length p \<Longrightarrow> butlast q = butlast p \<Longrightarrow> underFile f q = underFile f p"
proof -
  assume l: "length q = length p" and b: "butlast q = butlast p"
  have "\<And>n. n < length p \<Longrightarrow> take n q = take n p"
  proof -
    fix n assume "n < length p"
    then have "take n q = take n (butlast q)" "take n p = take n (butlast p)"
      using l by (simp_all add: take_butlast)
    then show "take n q = take n p" using b by simp
  qed
  then show ?thesis using l by (simp add: underFile_def list_ex_iff)
qed

lemma underFile_tmp:
  "underFile f (withSuffix (pathFor sd i) ''.tmp'') = underFile f (pathFor sd i)"
  unfolding tmp_eq unfolding pathFor_eq by (rule underFile_sibling) simp_all

lemma underFile_dir: "underFile f (dirFor sd i) \<Longrightarrow> underFile f (pathFor sd i)"
  unfolding pathFor_eq underFile_def list_ex_iff
  by (auto intro!: bexI[where x = n for n])

lemma nulPath_tmp: "nulPath (withSuffix (pathFor sd i) ''.tmp'') = nulPath (pathFor sd i)"
  unfolding tmp_eq unfolding pathFor_eq by (simp add: nulPath_def)

lemma nulPath_dir: "nulPath (dirFor sd i) = nulPath (pathFor sd i)"
  unfolding pathFor_eq by (simp add: nulPath_def)

lemma writeTo_other:
  "q \<noteq> p \<Longrightarrow> files (writeTo f q c) p = files f p"
  by (simp add: writeTo_def)

lemma writeTo_dirs: "dirs (writeTo f q c) = dirs f"
  by (simp add: writeTo_def)

lemma writeTo_under: "length q = length p \<Longrightarrow> underFile (writeTo f q c) p = underFile f p"
  by (simp add: writeTo_def underFile_upd)

lemma writeTo_same: "files (writeTo f q c) q = Some c"
  by (simp add: writeTo_def)

lemma Rename_result:
  "Rename f a b = Inr g \<Longrightarrow> files f a = Some c \<Longrightarrow> length a = length b
     \<Longrightarrow> files g b = Some c \<and> dirs g = dirs f \<and> underFile g b = underFile f b"
proof -
  assume r: "Rename f a b = Inr g" and c: "files f a = Some c" and l: "length a = length b"
  from r c have g: "g = f\<lparr>files := ((files f)(a := None))(b \<mapsto> c)\<rparr>"
    unfolding Rename_def by (auto split: if_splits)
  have "underFile g b = underFile f b"
    unfolding g by (rule underFile_cong) (simp add: take_neq l)
  then show ?thesis unfolding g by simp
qed

lemma Load_file:
  "files f (pathFor root i) = Some (Doc j)
     \<Longrightarrow> \<not> nulPath (pathFor root i) \<and> \<not> underFile f (pathFor root i)
     \<Longrightarrow> encodeState st = Some j \<Longrightarrow> goInts st
     \<Longrightarrow> Load f root i = Inr (reloaded st)"
  by (simp add: Load_def ReadFile_def decode_encode)

lemma Save_unfold:
  "Save f sd st =
     (case OpenFile f (withSuffix (pathFor sd (ID st)) ''.tmp'') of
        Inl e \<Rightarrow> (Some (Errno e), [])
      | Inr f1 \<Rightarrow>
         (case encodeState st of
            None \<Rightarrow> (Some JSONError, [f1])
          | Some j \<Rightarrow>
             (case Rename (writeTo f1 (withSuffix (pathFor sd (ID st)) ''.tmp'') (Doc j))
                     (withSuffix (pathFor sd (ID st)) ''.tmp'') (pathFor sd (ID st)) of
                Inl e \<Rightarrow> (Some (Errno e),
                           [f1, writeTo f1 (withSuffix (pathFor sd (ID st)) ''.tmp'') (Doc j)])
              | Inr f3 \<Rightarrow> (None,
                           [f1, writeTo f1 (withSuffix (pathFor sd (ID st)) ''.tmp'') (Doc j), f3]))))"
  unfolding Save_def Let_def by (rule refl)


lemma Save_states:
  assumes "g \<in> set (snd (Save f sd st))"
  shows "dirs g = dirs f \<and> underFile g (pathFor sd (ID st)) = underFile f (pathFor sd (ID st)) \<and>
     (\<not> nulPath (pathFor sd (ID st)) \<and> \<not> underFile g (pathFor sd (ID st))) \<and>
     (files g (pathFor sd (ID st)) = files f (pathFor sd (ID st))
      \<or> (\<exists>j. encodeState st = Some j \<and> files g (pathFor sd (ID st)) = Some (Doc j)))"
proof (cases "OpenFile f (withSuffix (pathFor sd (ID st)) ''.tmp'')")
  case (Inl e)
  with assms show ?thesis unfolding Save_unfold by simp
next
  case (Inr f1)
  let ?p = "pathFor sd (ID st)"
  let ?tmp = "withSuffix ?p ''.tmp''"
  have o: "files f1 ?p = files f ?p \<and> dirs f1 = dirs f \<and> underFile f1 ?p = underFile f ?p
      \<and> \<not> nulPath ?p \<and> \<not> underFile f ?p"
    using OpenFile_other[OF Inr tmp_neq tmp_length] OpenFile_same[OF Inr]
    by (simp add: nulPath_tmp underFile_tmp)
  show ?thesis
  proof (cases "encodeState st")
    case None
    with assms Inr have "g = f1" unfolding Save_unfold by simp
    with o show ?thesis by simp
  next
    case (Some j)
    let ?f2 = "writeTo f1 ?tmp (Doc j)"
    have w: "files ?f2 ?p = files f ?p \<and> dirs ?f2 = dirs f \<and> underFile ?f2 ?p = underFile f ?p
        \<and> \<not> nulPath ?p \<and> \<not> underFile f ?p"
      using o by (simp add: writeTo_other[OF tmp_neq] writeTo_dirs writeTo_under[OF tmp_length])
    show ?thesis
    proof (cases "Rename ?f2 ?tmp ?p")
      case (Inl e)
      with assms Inr Some have "g = f1 \<or> g = ?f2" unfolding Save_unfold by simp
      then show ?thesis
      proof
        assume "g = f1" with o show ?thesis by simp
      next
        assume "g = ?f2" with w show ?thesis by simp
      qed
    next
      case r: (Inr f3)
      have f3: "files f3 ?p = Some (Doc j) \<and> dirs f3 = dirs ?f2 \<and> underFile f3 ?p = underFile ?f2 ?p"
        by (rule Rename_result[OF r writeTo_same tmp_length])
      from assms Inr Some r have "g = f1 \<or> g = ?f2 \<or> g = f3" unfolding Save_unfold by simp
      then show ?thesis
      proof (elim disjE)
        assume "g = f1" with o show ?thesis by simp
      next
        assume "g = ?f2" with w show ?thesis by simp
      next
        assume "g = f3" with f3 w Some show ?thesis by simp
      qed
    qed
  qed
qed

lemma Save_atomic:
  assumes "g \<in> set (snd (Save f sd st))" and n: "goInts st"
  shows "Load g sd (ID st) = Load f sd (ID st) \<or> Load g sd (ID st) = Inr (reloaded st)"
proof -
  from Save_states[OF assms(1)] have d: "dirs g = dirs f"
    and u: "underFile g (pathFor sd (ID st)) = underFile f (pathFor sd (ID st))"
    and z: "\<not> nulPath (pathFor sd (ID st)) \<and> \<not> underFile g (pathFor sd (ID st))"
    and c: "files g (pathFor sd (ID st)) = files f (pathFor sd (ID st))
      \<or> (\<exists>j. encodeState st = Some j \<and> files g (pathFor sd (ID st)) = Some (Doc j))" by blast+
  from c show ?thesis
  proof
    assume "files g (pathFor sd (ID st)) = files f (pathFor sd (ID st))"
    from Load_cong[OF this d u] show ?thesis by blast
  next
    assume "\<exists>j. encodeState st = Some j \<and> files g (pathFor sd (ID st)) = Some (Doc j)"
    then obtain j where "encodeState st = Some j" "files g (pathFor sd (ID st)) = Some (Doc j)"
      by blast
    from Load_file[OF this(2) z this(1) n] show ?thesis by blast
  qed
qed

lemma Save_ok_file:
  assumes "fst (Save f root st) = None"
  shows "\<exists>j. encodeState st = Some j
            \<and> (\<not> nulPath (pathFor root (ID st))
               \<and> \<not> underFile (final f (Save f root st)) (pathFor root (ID st)))
            \<and> files (final f (Save f root st)) (pathFor root (ID st)) = Some (Doc j)"
proof -
  let ?p = "pathFor root (ID st)"
  let ?tmp = "withSuffix ?p ''.tmp''"
  from assms obtain f1 where o: "OpenFile f ?tmp = Inr f1"
    unfolding Save_unfold by (cases "OpenFile f ?tmp") simp_all
  from assms o obtain j where e: "encodeState st = Some j"
    unfolding Save_unfold by (cases "encodeState st") simp_all
  from assms o e obtain f3 where r: "Rename (writeTo f1 ?tmp (Doc j)) ?tmp ?p = Inr f3"
    unfolding Save_unfold by (cases "Rename (writeTo f1 ?tmp (Doc j)) ?tmp ?p") simp_all
  have fin: "final f (Save f root st) = f3" unfolding Save_unfold final_def using o e r by simp
  have "f3 \<in> set (snd (Save f root st))" unfolding Save_unfold using o e r by simp
  from Save_states[OF this] have "\<not> nulPath ?p \<and> \<not> underFile f3 ?p" by blast
  with fin Rename_result[OF r writeTo_same tmp_length] e show ?thesis by simp
qed

lemma Save_ok_Load:
  assumes "fst (Save f root st) = None" "goInts st"
  shows "Load (final f (Save f root st)) root (ID st) = Inr (reloaded st)"
proof -
  from Save_ok_file[OF assms(1)] obtain j where "encodeState st = Some j"
    "\<not> nulPath (pathFor root (ID st))
       \<and> \<not> underFile (final f (Save f root st)) (pathFor root (ID st))"
    "files (final f (Save f root st)) (pathFor root (ID st)) = Some (Doc j)" by blast
  from Load_file[OF this(3) this(2) this(1) assms(2)] show ?thesis .
qed

lemma Save_failed_Load:
  assumes "fst (Save f sd st) \<noteq> None"
  shows "Load (final f (Save f sd st)) sd (ID st) = Load f sd (ID st)"
proof (cases "snd (Save f sd st)")
  case Nil
  then show ?thesis by (simp add: final_def)
next
  case (Cons a l)
  let ?p = "pathFor sd (ID st)"
  let ?g = "final f (Save f sd st)"
  have m: "?g \<in> set (snd (Save f sd st))" unfolding final_def using Cons by simp
  have k: "files ?g ?p = files f ?p"
  proof (cases "OpenFile f (withSuffix ?p ''.tmp'')")
    case (Inl e)
    with Cons show ?thesis unfolding Save_unfold by simp
  next
    case (Inr f1)
    have o: "files f1 ?p = files f ?p"
      using OpenFile_other[OF Inr tmp_neq tmp_length] by simp
    show ?thesis
    proof (cases "encodeState st")
      case None
      with Inr have "?g = f1" unfolding Save_unfold final_def by simp
      with o show ?thesis by simp
    next
      case (Some j)
      let ?f2 = "writeTo f1 (withSuffix ?p ''.tmp'') (Doc j)"
      from assms Inr Some obtain e where "Rename ?f2 (withSuffix ?p ''.tmp'') ?p = Inl e"
        unfolding Save_unfold by (cases "Rename ?f2 (withSuffix ?p ''.tmp'') ?p") simp_all
      with Inr Some have "?g = ?f2" unfolding Save_unfold final_def by simp
      with o show ?thesis by (simp add: writeTo_other[OF tmp_neq])
    qed
  qed
  from Save_states[OF m] have "dirs ?g = dirs f" "underFile ?g ?p = underFile f ?p" by blast+
  from Load_cong[OF k this] show ?thesis .
qed

lemma Save_final:
  assumes "goInts st"
  shows "Load (final f (Save f sd st)) sd (ID st)
     = (if fst (Save f sd st) = None then Inr (reloaded st) else Load f sd (ID st))"
proof (cases "fst (Save f sd st) = None")
  case True
  from Save_ok_Load[OF True assms] True show ?thesis by simp
next
  case False
  have "(if fst (Save f sd st) = None then Inr (reloaded st) else Load f sd (ID st))
      = Load f sd (ID st)" using False by (rule if_not_P)
  with Save_failed_Load[OF False] show ?thesis by (rule trans[OF _ sym])
qed

lemma Create_empty_document:
  assumes "fst (Create f now sd st) = None"
  shows "\<exists>g. g \<in> set (snd (Create f now sd st)) \<and>
           files g (pathFor sd (ID st)) = Some (Text []) \<and> Load g sd (ID st) = Inl JSONError"
proof -
  from assms obtain f1 where m: "MkdirAll f (dirFor sd (ID st)) = Inr f1"
    unfolding Create_def Let_def by (cases "MkdirAll f (dirFor sd (ID st))") simp_all
  from assms m have ns: "\<not> Stat f1 (pathFor sd (ID st))"
    unfolding Create_def Let_def by (auto split: if_splits)
  from assms m ns obtain f2 where o: "OpenFile f1 (pathFor sd (ID st)) = Inr f2"
    unfolding Create_def Let_def by (cases "OpenFile f1 (pathFor sd (ID st))") simp_all
  from m ns o have t: "f2 \<in> set (snd (Create f now sd st))"
    unfolding Create_def Let_def by (simp split: option.splits)
  from OpenFile_same[OF o] have e: "files f2 (pathFor sd (ID st)) = Some (Text [])"
    and z: "\<not> nulPath (pathFor sd (ID st))" "\<not> underFile f2 (pathFor sd (ID st))" by simp_all
  then have "Load f2 sd (ID st) = Inl JSONError" by (simp add: Load_def ReadFile_def)
  with t e show ?thesis by blast
qed

subsection \<open>The commands and the status of a record\<close>

text \<open>
  A record that \<^verbatim>\<open>Load\<close> returns holds Go \<^verbatim>\<open>int\<close>s. For a record stored under its own
  id: \<^verbatim>\<open>state\<close> and the wait of \<^verbatim>\<open>run\<close> keep the status or set it to stopped, \<^verbatim>\<open>delete\<close>
  removes the record, \<^verbatim>\<open>create\<close> refuses it, and \<^verbatim>\<open>start\<close> sets every status but
  running to running. \<^verbatim>\<open>run\<close> returns 0 or 1, whatever the exit status of the process.
\<close>

lemma goInt_small: "- 1 \<le> n \<Longrightarrow> n \<le> 256 \<Longrightarrow> goInt n"
  by (simp add: goInt_def minInt_def maxInt_def)

lemma goInt_ExitStatus: "goInt (ExitStatus ws)"
  by (cases ws) (simp_all add: goInt_small)

lemma goInts_zeroState: "goInts zeroState"
  by (simp add: goInts_def zeroState_def goInt_small)

lemma intoInt_goInt: "intoInt cur v = Some n \<Longrightarrow> goInt cur \<Longrightarrow> goInt n"
  by (cases v) (simp_all split: if_splits)

lemma intoIntPtr_goInt:
  "intoIntPtr cur v = Some r \<Longrightarrow> (case r of None \<Rightarrow> True | Some c \<Rightarrow> goInt c)"
  by (cases v) (auto split: if_splits)

lemma setStateField_goInts:
  assumes "goInts a" "setStateField a kv = Some b"
  shows "goInts b"
  using assms intoInt_goInt[of "Pid a" "snd kv"] intoIntPtr_goInt[of "ExitCode a" "snd kv"]
  unfolding setStateField_def goInts_def
  by (auto split: option.splits if_splits)

lemma decodeState_goInts: "decodeState j = Some st \<Longrightarrow> goInts st"
proof (cases j)
  case JNull
  assume "decodeState j = Some st"
  with JNull show ?thesis by (simp add: goInts_zeroState)
next
  case (JObj ms)
  assume "decodeState j = Some st"
  with JObj have "decodeMembers setStateField zeroState ms = Some st" by simp
  from decodeMembers_invariant[of setStateField zeroState ms st goInts, OF this goInts_zeroState]
  show ?thesis using setStateField_goInts by blast
qed simp_all

lemma Load_goInts: "Load f sd i = Inr st \<Longrightarrow> goInts st"
  unfolding Load_def
  by (auto simp: decodeState_goInts split: sum.splits content.splits option.splits)

lemma goInts_upd:
  "goInts st \<Longrightarrow> goInts (st\<lparr>Status := s\<rparr>)"
  "goInts st \<Longrightarrow> goInts (st\<lparr>StartedAt := t\<rparr>)"
  "goInts st \<Longrightarrow> goInts (st\<lparr>ExitedAt := t\<rparr>)"
  "goInts st \<Longrightarrow> goInt c \<Longrightarrow> goInts (st\<lparr>ExitCode := Some c\<rparr>)"
  by (simp_all add: goInts_def)

lemma WriteFile_start:
  assumes "WriteFile f (Join (Join sd i) ''start'') c = Inr f1"
  shows "Load f1 sd i = Load f sd i"
proof -
  let ?q = "Join (Join sd i) ''start''"
  have ne: "?q \<noteq> pathFor sd i" unfolding start_path pathFor_eq by simp
  have le: "length ?q = length (pathFor sd i)" unfolding start_path pathFor_eq by simp
  from assms obtain f0 where o: "OpenFile f ?q = Inr f0" and w: "f1 = writeTo f0 ?q c"
    unfolding WriteFile_def by (cases "OpenFile f ?q") auto
  from OpenFile_other[OF o ne le] have a: "files f0 (pathFor sd i) = files f (pathFor sd i)"
    and d: "dirs f0 = dirs f"
    and u: "underFile f0 (pathFor sd i) = underFile f (pathFor sd i)" by blast+
  have "files f1 (pathFor sd i) = files f (pathFor sd i)"
    unfolding w using a by (simp add: writeTo_other[OF ne])
  moreover have "dirs f1 = dirs f" unfolding w using d by (simp add: writeTo_dirs)
  moreover have "underFile f1 (pathFor sd i) = underFile f (pathFor sd i)"
    unfolding w using u by (simp add: writeTo_under[OF le])
  ultimately show ?thesis by (rule Load_cong)
qed

lemma cmdStart_running:
  "Load f sd i = Inr st \<Longrightarrow> Status st = Running \<Longrightarrow> cmdStart f now sd i = (None, f)"
  by (simp add: cmdStart_def)

lemma cmdStart_not_running:
  assumes l: "Load f sd i = Inr st" and i: "ID st = i" and s: "Status st \<noteq> Running"
    and ok: "fst (cmdStart f now sd i) = None"
  shows "Load (snd (cmdStart f now sd i)) sd i
           = Inr (reloaded (st\<lparr>Status := Running, StartedAt := Some now\<rparr>))"
proof (cases "WriteFile f (Join (Join sd i) ''start'') (Text ''start'')")
  case (Inl e)
  with l s ok show ?thesis by (simp add: cmdStart_def)
next
  case (Inr f1)
  let ?st = "st\<lparr>Status := Running, StartedAt := Some now\<rparr>"
  have c: "cmdStart f now sd i = (fst (Save f1 sd ?st), final f1 (Save f1 sd ?st))"
    using l s Inr by (simp add: cmdStart_def Let_def)
  with ok have sv: "fst (Save f1 sd ?st) = None" by simp
  have n: "goInts ?st" using Load_goInts[OF l] by (simp add: goInts_def)
  have "ID ?st = i" using i by simp
  with Save_ok_Load[OF sv n]
  have "Load (final f1 (Save f1 sd ?st)) sd i = Inr (reloaded ?st)" by simp
  with c show ?thesis by simp
qed

lemma markStopped_load:
  assumes i: "ID st = i" and n: "goInts st"
  shows "Load (snd (markStopped f now sd st)) sd i = Load f sd i
         \<or> Load (snd (markStopped f now sd st)) sd i
              = Inr (reloaded (st\<lparr>Status := Stopped, ExitedAt := Some now\<rparr>))"
proof -
  let ?st = "st\<lparr>Status := Stopped, ExitedAt := Some now\<rparr>"
  have "ID ?st = i" using i by simp
  moreover have "goInts ?st" using n by (simp add: goInts_def)
  ultimately have "Load (final f (Save f sd ?st)) sd i
     = (if fst (Save f sd ?st) = None then Inr (reloaded ?st) else Load f sd i)"
    using Save_final[of ?st f sd] by simp
  then show ?thesis unfolding markStopped_def Let_def by (simp split: if_splits)
qed

lemma cmdState_load:
  assumes l: "Load f sd i = Inr st" and i: "ID st = i"
  shows "Load (fst (snd (cmdState f now kill sd i))) sd i = Inr st
         \<or> (Status st = Running \<and>
             Load (fst (snd (cmdState f now kill sd i))) sd i
               = Inr (reloaded (st\<lparr>Status := Stopped, ExitedAt := Some now\<rparr>)))"
proof (cases "Status st = Running \<and> \<not> pidAlive kill (Pid st)")
  case True
  then have "fst (snd (cmdState f now kill sd i)) = snd (markStopped f now sd st)"
    using l by (simp add: cmdState_def Let_def)
  with markStopped_load[OF i Load_goInts[OF l], of f now sd] l True show ?thesis by auto
next
  case False
  then have "fst (snd (cmdState f now kill sd i)) = f"
    using l by (auto simp: cmdState_def Let_def)
  with l show ?thesis by simp
qed

lemma waitProcess_load:
  assumes l: "Load f sd i = Inr st" and i: "ID st = i"
    and w: "waitProcess f now waits sd i = Some r"
  shows "Load (snd r) sd i = Inr st
         \<or> (\<exists>code. Load (snd r) sd i
               = Inr (reloaded (st\<lparr>Status := Stopped, ExitedAt := Some now, ExitCode := Some code\<rparr>)))"
proof (cases "Pid st \<le> 0")
  case True
  with l w show ?thesis by (auto simp: waitProcess_def)
next
  case False
  show ?thesis
  proof (cases "waitLoop (Pid st) waits")
    case None
    with l w False show ?thesis by (simp add: waitProcess_def)
  next
    case (Some a)
    show ?thesis
    proof (cases a)
      case (Inl e)
      with l w False Some show ?thesis by (auto simp: waitProcess_def)
    next
      case (Inr ws)
      let ?st = "st\<lparr>Status := Stopped, ExitedAt := Some now, ExitCode := Some (ExitStatus ws)\<rparr>"
      have r: "snd r = final f (Save f sd ?st)"
        using l w False Some Inr by (auto simp: waitProcess_def Let_def)
      have "ID ?st = i" using i by simp
      moreover have "goInts ?st" using Load_goInts[OF l] goInt_ExitStatus[of ws]
        by (simp add: goInts_def)
      ultimately have "Load (final f (Save f sd ?st)) sd i
         = (if fst (Save f sd ?st) = None then Inr (reloaded ?st) else Load f sd i)"
        using Save_final[of ?st f sd] by simp
      with r l show ?thesis by (auto split: if_splits)
    qed
  qed
qed

lemma waitProcess_exit:
  assumes l: "Load f sd i = Inr st" and p: "0 < Pid st"
    and w: "waitLoop (Pid st) waits = Some (Inr ws)"
  shows "waitProcess f now waits sd i
     = Some ((ExitStatus ws, None),
             final f (Save f sd (st\<lparr>Status := Stopped, ExitedAt := Some now,
                                      ExitCode := Some (ExitStatus ws)\<rparr>)))"
  using l p w by (simp add: waitProcess_def Let_def)

lemma runCommand_exit_code:
  assumes "runCommand f n1 n2 n3 os probes waits cwd sd i bundle pidFile = Some r"
  shows "fst r = 0 \<or> fst r = 1"
  using assms unfolding runCommand_def Let_def
  by (auto split: option.splits)

lemma RemoveAll_files: "files (RemoveAll f (dirFor sd i)) (pathFor sd i) = None"
  unfolding pathFor_eq RemoveAll_def under_def by simp

lemma RemoveAll_gone:
  "Load (RemoveAll f (dirFor sd i)) sd i = Inl (Errno ENOENT)
   \<or> Load (RemoveAll f (dirFor sd i)) sd i = Inl (Errno ENOTDIR)
   \<or> Load (RemoveAll f (dirFor sd i)) sd i = Inl (Errno EINVAL)"
proof -
  have "\<not> isDir (RemoveAll f (dirFor sd i)) (pathFor sd i)"
    unfolding pathFor_eq RemoveAll_def under_def isDir_def by simp
  then show ?thesis
    unfolding Load_def ReadFile_def by (simp add: RemoveAll_files)
qed

lemma Load_resolves:
  "Load f sd i = Inr st \<Longrightarrow> \<not> nulPath (dirFor sd i) \<and> \<not> underFile f (dirFor sd i)"
  using underFile_dir[of f sd i]
  unfolding nulPath_dir Load_def ReadFile_def by (auto split: if_splits)

lemma Delete_resolved:
  "\<not> nulPath (dirFor sd i) \<and> \<not> underFile g (dirFor sd i)
     \<Longrightarrow> Delete g sd i = (None, [RemoveAll g (dirFor sd i)])"
  by (simp add: Delete_def)

lemma markStopped_resolves:
  assumes l: "Load f sd i = Inr st" and i: "ID st = i"
  shows "\<not> nulPath (dirFor sd i) \<and> \<not> underFile (snd (markStopped f now sd st)) (dirFor sd i)"
proof -
  from markStopped_load[OF i Load_goInts[OF l], of f now sd] l
  obtain st' where "Load (snd (markStopped f now sd st)) sd i = Inr st'" by auto
  then show ?thesis by (rule Load_resolves)
qed

lemma cmdDelete_unfold:
  assumes l: "Load f sd i = Inr st"
  shows "\<exists>g evs. (g = f \<or> g = snd (markStopped f now sd st))
           \<and> cmdDelete f now probes sd i
               = ((case fst (Delete g sd i) of
                     None \<Rightarrow> None
                   | Some e \<Rightarrow> if IsNotExist e then None else Some e),
                  final g (Delete g sd i), evs)"
proof (cases "Status st = Running")
  case False
  with l have "cmdDelete f now probes sd i
      = ((case fst (Delete f sd i) of
            None \<Rightarrow> None
          | Some e \<Rightarrow> if IsNotExist e then None else Some e),
         final f (Delete f sd i), [])"
    by (simp add: cmdDelete_def Let_def)
  then show ?thesis by blast
next
  case True
  let ?m = "snd (markStopped f now sd st)"
  show ?thesis
  proof (cases "pidAlive (probes 0) (Pid st)")
    case False
    with l True have "cmdDelete f now probes sd i
      = ((case fst (Delete ?m sd i) of
            None \<Rightarrow> None
          | Some e \<Rightarrow> if IsNotExist e then None else Some e),
         final ?m (Delete ?m sd i), [])"
      by (simp add: cmdDelete_def Let_def)
    then show ?thesis by blast
  next
    case a: True
    show ?thesis
    proof (cases "deleteWait probes (Pid st) 2 20")
      case True
      with l \<open>Status st = Running\<close> a have "cmdDelete f now probes sd i
        = ((case fst (Delete ?m sd i) of
              None \<Rightarrow> None
            | Some e \<Rightarrow> if IsNotExist e then None else Some e),
           final ?m (Delete ?m sd i), [Signalled (Pid st) SIGKILL])"
        by (simp add: cmdDelete_def Let_def)
      then show ?thesis by blast
    next
      case False
      with l \<open>Status st = Running\<close> a have "cmdDelete f now probes sd i
        = ((case fst (Delete f sd i) of
              None \<Rightarrow> None
            | Some e \<Rightarrow> if IsNotExist e then None else Some e),
           final f (Delete f sd i), [Signalled (Pid st) SIGKILL])"
        by (simp add: cmdDelete_def Let_def)
      then show ?thesis by blast
    qed
  qed
qed

lemma cmdDelete_removes:
  assumes l: "Load f sd i = Inr st" and i: "ID st = i"
  shows "fst (cmdDelete f now probes sd i) = None
         \<and> (\<exists>e. Load (fst (snd (cmdDelete f now probes sd i))) sd i = Inl (Errno e))"
proof -
  from cmdDelete_unfold[OF l, of now probes] obtain g evs
    where g: "g = f \<or> g = snd (markStopped f now sd st)"
      and c: "cmdDelete f now probes sd i
               = ((case fst (Delete g sd i) of
                     None \<Rightarrow> None
                   | Some e \<Rightarrow> if IsNotExist e then None else Some e),
                  final g (Delete g sd i), evs)" by blast
  from g have "\<not> nulPath (dirFor sd i) \<and> \<not> underFile g (dirFor sd i)"
    using Load_resolves[OF l] markStopped_resolves[OF l i, of now] by (elim disjE) simp_all
  then have d: "Delete g sd i = (None, [RemoveAll g (dirFor sd i)])"
    by (rule Delete_resolved)
  show ?thesis unfolding c d using RemoveAll_gone[of g sd i] by (auto simp: final_def)
qed

lemma Load_exists: "Load f sd i = Inr st \<Longrightarrow> Exists f sd i"
  unfolding Load_def Exists_def Stat_def ReadFile_def
  by (auto split: option.splits if_splits)

lemma cmdCreate_existing:
  "Load f sd i = Inr st \<Longrightarrow>
     cmdCreate f now os cwd sd i bundle pidFile = (Some (AlreadyExists i), f, [])"
  using Load_exists[of f sd i st] by (simp add: cmdCreate_def)

lemma toValidUTF8_Running: "toValidUTF8 Running = Running"
  by code_simp

lemma cmdStart_stopped:
  assumes "Load f sd i = Inr st" "ID st = i" "Status st = Stopped"
    "fst (cmdStart f now sd i) = None"
  shows "\<exists>st'. Load (snd (cmdStart f now sd i)) sd i = Inr st' \<and> Status st' = Running"
proof -
  have "Status st \<noteq> Running" using assms(3) by (simp add: Stopped_def Running_def)
  from cmdStart_not_running[OF assms(1,2) this assms(4)] show ?thesis
    by (simp add: reloaded_fields toValidUTF8_Running)
qed

lemma runCommand_success:
  assumes c: "fst (cmdCreate f n1 os cwd sd i bundle pidFile) = None"
    and s: "fst (cmdStart (fst (snd (cmdCreate f n1 os cwd sd i bundle pidFile))) n2 sd i) = None"
    and l: "Load (snd (cmdStart (fst (snd (cmdCreate f n1 os cwd sd i bundle pidFile))) n2 sd i)) sd i
              = Inr st"
    and p: "0 < Pid st"
    and w: "waitLoop (Pid st) waits = Some (Inr (Exited n))"
  shows "runCommand f n1 n2 n3 os probes waits cwd sd i bundle pidFile
     = Some (0, final (snd (cmdStart (fst (snd (cmdCreate f n1 os cwd sd i bundle pidFile))) n2 sd i))
                 (Save (snd (cmdStart (fst (snd (cmdCreate f n1 os cwd sd i bundle pidFile))) n2 sd i)) sd
                    (st\<lparr>Status := Stopped, ExitedAt := Some n3, ExitCode := Some (n mod 256)\<rparr>)))"
  unfolding runCommand_def Let_def
  using c s waitProcess_exit[OF l p w, of n3] by simp

subsection \<open>The claims\<close>



text \<open>
  C9. The liveness check is false for every pid that is not positive; for a positive pid
  it is true when the probe (signal 0) succeeds and when it fails with EPERM, and false
  on any other failure of the probe.
\<close>

theorem pidAlive_probe:
  "(pid \<le> 0 \<longrightarrow> \<not> pidAlive kill pid)
   \<and> (0 < pid \<and> kill pid 0 = None \<longrightarrow> pidAlive kill pid)
   \<and> (0 < pid \<and> kill pid 0 = Some EPERM \<longrightarrow> pidAlive kill pid)
   \<and> (0 < pid \<and> kill pid 0 = Some e \<and> e \<noteq> EPERM \<longrightarrow> \<not> pidAlive kill pid)"
  by (auto simp: pidAlive_def)

theorem pidAlive_probe_witness:
  "\<not> pidAlive (\<lambda>p s. None) 0
   \<and> pidAlive (\<lambda>p s. if p = 42 then None else Some ESRCH) 42
   \<and> pidAlive (\<lambda>p s. if p = 1 then Some EPERM else Some ESRCH) 1
   \<and> \<not> pidAlive (\<lambda>p s. if p = 42 then None else Some ESRCH) 43"
  using pidAlive_probe [of 0 "\<lambda>p s. None" ESRCH]
    pidAlive_probe [of 42 "\<lambda>p s. if p = 42 then None else Some ESRCH" ESRCH]
    pidAlive_probe [of 1 "\<lambda>p s. if p = 1 then Some EPERM else Some ESRCH" ESRCH]
    pidAlive_probe [of 43 "\<lambda>p s. if p = 42 then None else Some ESRCH" ESRCH]
  by simp



text \<open>
  C7 at the command line \<^verbatim>\<open>runproc kill --all c1 9\<close>, with container \<^verbatim>\<open>c1\<close> (pid 4242) in
  the store. The kill case of \<^verbatim>\<open>run()\<close> means to drop \<^verbatim>\<open>--all\<close> and \<^verbatim>\<open>-a\<close>, but
  \<^verbatim>\<open>preprocessRuncCompat\<close> has run before it and has dropped the flag together with the
  argument behind it, the id. What is left, \<open>9\<close>, is read as the id with an empty signal:
  \<^verbatim>\<open>cmdKill\<close> finds no such container and returns success, and no signal is sent. The
  same line with \<^verbatim>\<open>-a\<close> and a name loses the id too. Without the flag, \<open>9\<close>, \<open>-9\<close> and
  \<open>SIGKILL\<close> send signal 9 to pid 4242, and no signal argument sends 15, as the claim says.
\<close>

theorem kill_all_swallows_the_id:
  "runKill [''kill'', ''--all'', ''c1'', ''9''] = Some (''9'', [])
   \<and> cmdKill demoStore (\<lambda>p s. None) demoDir ''9'' [] = (None, [])
   \<and> runKill [''kill'', ''-a'', ''c1'', ''SIGKILL''] = Some (''SIGKILL'', [])
   \<and> cmdKill demoStore (\<lambda>p s. None) demoDir ''SIGKILL'' [] = (None, [])
   \<and> runKill [''kill'', ''c1'', ''9''] = Some (''c1'', ''9'')
   \<and> runKill [''kill'', ''c1'', ''-9''] = Some (''c1'', ''9'')
   \<and> runKill [''kill'', ''-9'', ''c1''] = Some (''c1'', ''9'')
   \<and> cmdKill demoStore (\<lambda>p s. None) demoDir ''c1'' ''9'' = (None, [Signalled 4242 9])
   \<and> runKill [''kill'', ''c1'', ''SIGKILL''] = Some (''c1'', ''SIGKILL'')
   \<and> cmdKill demoStore (\<lambda>p s. None) demoDir ''c1'' ''SIGKILL'' = (None, [Signalled 4242 9])
   \<and> runKill [''kill'', ''c1''] = Some (''c1'', [])
   \<and> cmdKill demoStore (\<lambda>p s. None) demoDir ''c1'' [] = (None, [Signalled 4242 15])"
  by code_simp



text \<open>
  C4 at the bundle \<^verbatim>\<open>/b\<close> whose process declares \<^verbatim>\<open>"args": []\<close>. \<^verbatim>\<open>LoadSpec\<close> returns the
  Spec, with no error and \<^verbatim>\<open>Process.Args\<close> empty; \<^verbatim>\<open>create\<close> succeeds and sends the
  empty argument vector to the child; \<^verbatim>\<open>start\<close> succeeds; and the supervisor, which
  relies on the invariant, ends in the panic of \<^verbatim>\<open>p.Args[0]\<close>.
\<close>

theorem empty_args_reach_the_supervisor:
  "LoadSpec emptyArgsFs [] ''/b''
     = Inr \<lparr>OCIVersion = ''1.1.0'',
            Process = Some \<lparr>Terminal = False, Args = [], Env = [], Cwd = ''/''\<rparr>,
            Root = None, SpecAnnotations = None\<rparr>
   \<and> fst (cmdCreate emptyArgsFs 100 demoSpawner [] demoDir ''c1'' ''/b'' []) = None
   \<and> snd (snd (cmdCreate emptyArgsFs 100 demoSpawner [] demoDir ''c1'' ''/b'' []))
       = [Spawned 4242,
          Sent (JObj [(''terminal'', JBool False), (''args'', JArr []), (''env'', JArr []),
                      (''cwd'', JStr ''/'')])]
   \<and> fst (cmdStart (fst (snd (cmdCreate emptyArgsFs 100 demoSpawner [] demoDir ''c1'' ''/b'' [])))
          200 demoDir ''c1'') = None
   \<and> map_option (\<lambda>r. case r of Panicked \<Rightarrow> True | _ \<Rightarrow> False)
       (cmdInit
         [fst (snd (cmdCreate emptyArgsFs 100 demoSpawner [] demoDir ''c1'' ''/b'' [])),
          snd (cmdStart (fst (snd (cmdCreate emptyArgsFs 100 demoSpawner [] demoDir ''c1'' ''/b'' [])))
                 200 demoDir ''c1'')]
         \<lparr>k_chroot = (\<lambda>p. None), k_chdir = (\<lambda>p. None), k_exec = (\<lambda>p. None), k_euid = 0\<rparr>
         \<lparr>p_root = [], p_cwd = [''b''], p_env = Map.empty\<rparr>
         (Some (JObj [(''terminal'', JBool False), (''args'', JArr []), (''env'', JArr []),
                      (''cwd'', JStr ''/'')]))
         demoDir ''c1'')
       = Some True"
  by code_simp




text \<open>
  C1 at a process that exits with status 3. The wait is interrupted once, then returns
  the child with exit status 3. The record ends as stopped with exit code 3, as the
  claim says; the exit code that \<^verbatim>\<open>run()\<close> returns is 0, not 3.
\<close>

theorem run_returns_zero_for_exit_3:
  "map_option fst (runCommand demoFs 100 200 300 demoSpawner (\<lambda>n p s. None)
       [WaitErr EINTR, Waited 4242 (Exited 3)] [] demoDir ''c1'' ''/b'' []) = Some 0
   \<and> map_option (\<lambda>r. Load (snd r) demoDir ''c1'')
       (runCommand demoFs 100 200 300 demoSpawner (\<lambda>n p s. None)
         [WaitErr EINTR, Waited 4242 (Exited 3)] [] demoDir ''c1'' ''/b'' [])
     = Some (Inr (demoRecord\<lparr>Status := ''stopped'', StartedAt := Some 200, ExitedAt := Some 300,
                   ExitCode := Some 3\<rparr>))"
  by code_simp

text \<open>
  C3 at the first \<^verbatim>\<open>Create\<close> of container \<^verbatim>\<open>c1\<close>, and at a second one. \<^verbatim>\<open>Create\<close>
  succeeds and passes through three file-system states: in the first there is no
  \<^verbatim>\<open>state.json\<close>, in the second \<^verbatim>\<open>state.json\<close> exists and is empty, so that a reader
  gets a JSON error, and only the third holds the record (status created, time 100).
  A second \<^verbatim>\<open>Create\<close> fails with the already-exists error. \<^verbatim>\<open>Save\<close> of a changed
  record shows the old record until the rename, then the new one.
\<close>

theorem Create_shows_empty_document:
  "fst (Create demoFs 100 demoDir (zeroState\<lparr>ID := ''c1'', Bundle := ''/b'', Pid := 4242\<rparr>)) = None
   \<and> map (\<lambda>f. Load f demoDir ''c1'')
        (snd (Create demoFs 100 demoDir (zeroState\<lparr>ID := ''c1'', Bundle := ''/b'', Pid := 4242\<rparr>)))
      = [Inl (Errno ENOENT), Inl JSONError, Inr demoRecord]
   \<and> fst (Create demoStore 500 demoDir (zeroState\<lparr>ID := ''c1'', Bundle := ''/b'', Pid := 77\<rparr>))
      = Some (AlreadyExists ''c1'')
   \<and> map (\<lambda>f. Load f demoDir ''c1'')
        (snd (Save demoStore demoDir (demoRecord\<lparr>Status := ''running''\<rparr>)))
      = [Inr demoRecord, Inr demoRecord, Inr (demoRecord\<lparr>Status := ''running''\<rparr>)]"
  by code_simp

text \<open>
  C2 at a record that has stopped. Container \<^verbatim>\<open>c1\<close> is created and started, its
  process dies, and \<^verbatim>\<open>state\<close> rewrites the record to stopped at time 300. A later
  \<^verbatim>\<open>start\<close>, at time 400, succeeds and leaves the record running.
\<close>

theorem start_moves_stopped_to_running:
  "Load (fst (snd (cmdState
          (snd (cmdStart (fst (snd (cmdCreate demoFs 100 demoSpawner [] demoDir ''c1'' ''/b'' [])))
                 200 demoDir ''c1''))
          300 (\<lambda>p s. Some ESRCH) demoDir ''c1''))) demoDir ''c1''
     = Inr (demoRecord\<lparr>Status := ''stopped'', StartedAt := Some 200, ExitedAt := Some 300\<rparr>)
   \<and> fst (cmdStart (fst (snd (cmdState
          (snd (cmdStart (fst (snd (cmdCreate demoFs 100 demoSpawner [] demoDir ''c1'' ''/b'' [])))
                 200 demoDir ''c1''))
          300 (\<lambda>p s. Some ESRCH) demoDir ''c1''))) 400 demoDir ''c1'') = None
   \<and> Load (snd (cmdStart (fst (snd (cmdState
          (snd (cmdStart (fst (snd (cmdCreate demoFs 100 demoSpawner [] demoDir ''c1'' ''/b'' [])))
                 200 demoDir ''c1''))
          300 (\<lambda>p s. Some ESRCH) demoDir ''c1''))) 400 demoDir ''c1'')) demoDir ''c1''
     = Inr (demoRecord\<lparr>Status := ''running'', StartedAt := Some 400, ExitedAt := Some 300\<rparr>)"
  by code_simp

end
